theory Spec2Isabelle
  imports Main
begin

section \<open>A health-check HTTP responder (server.py)\<close>

text \<open>
  The program is one module: a global \<open>PORT\<close> read from the environment when the module
  is loaded, a request handler class with the two methods \<open>do_GET\<close> and \<open>do_POST\<close>,
  and a single-threaded \<open>socketserver.TCPServer\<close> that runs the handler once per accepted
  connection.

  The methods the handler inherits from \<open>http.server.BaseHTTPRequestHandler\<close> and the
  built-ins it calls (\<open>int\<close>, \<open>json.dumps\<close>, \<open>str.encode\<close>, \<open>bytes.decode\<close>,
  \<open>rfile.read\<close>) belong to the Python standard library (CPython 3.11, 64 bit). They are
  modelled by what they do there, for every request that the library passes on to
  \<open>do_GET\<close> or \<open>do_POST\<close>. A Python \<open>str\<close> is modelled as a \<open>string\<close>: the request
  target and the header values are decoded by the library from ISO-8859-1, so each of
  their characters is one of the 256 values of \<open>char\<close>; the same type stands for
  \<open>bytes\<close>.
\<close>

subsection \<open>Outcomes of a call\<close>

datatype exn =
  ValueError | UnicodeDecodeError | OverflowError | MemoryError | BrokenPipeError | OSError

text \<open>
  A call returns a value, raises, or never returns because it waits for bytes that the
  peer does not send (no timeout is configured on the socket).
\<close>

datatype 'a result = Return 'a | Raise exn | Block

text \<open>Sequencing of two steps on a state: the second runs only if the first returns.\<close>

definition and_then ::
  "('s \<Rightarrow> 'a result \<times> 's) \<Rightarrow> ('a \<Rightarrow> 's \<Rightarrow> 'b result \<times> 's) \<Rightarrow> 's \<Rightarrow> 'b result \<times> 's" where
  "and_then m f s =
     (case m s of
        (Return x, s') \<Rightarrow> f x s'
      | (Raise e, s') \<Rightarrow> (Raise e, s')
      | (Block, s') \<Rightarrow> (Block, s'))"

subsection \<open>The built-in \<open>int\<close>\<close>

text \<open>
  \<open>os.environ.get("PORT", 8080)\<close> and \<open>self.headers.get('Content-Length', 0)\<close> return
  a \<open>str\<close> when the key is present and the \<open>int\<close> default otherwise.
\<close>

datatype pyval = PyInt int | PyStr string

definition is_digit :: "char \<Rightarrow> bool" where
  "is_digit c \<longleftrightarrow> 48 \<le> (of_char c :: nat) \<and> (of_char c :: nat) \<le> 57"

definition digit_value :: "char \<Rightarrow> nat" where
  "digit_value c = of_char c - 48"

text \<open>
  The characters \<open>int\<close> skips around a literal: tab, line feed, vertical tab, form feed,
  carriage return, space and, beyond ASCII, the two ISO-8859-1 spaces U+0085 and U+00A0.
\<close>

definition py_isspace :: "char \<Rightarrow> bool" where
  "py_isspace c \<longleftrightarrow> (of_char c :: nat) \<in> {9, 10, 11, 12, 13, 32, 133, 160}"

definition is_underscore :: "char \<Rightarrow> bool" where
  "is_underscore c \<longleftrightarrow> c = CHR ''_''"

definition digit_or_underscore :: "char \<Rightarrow> bool" where
  "digit_or_underscore c \<longleftrightarrow> is_digit c \<or> is_underscore c"

fun strip_sign :: "string \<Rightarrow> bool \<times> string" where
  "strip_sign [] = (False, [])"
| "strip_sign (c # cs) =
     (if c = CHR ''-'' then (True, cs)
      else if c = CHR ''+'' then (False, cs)
      else (False, c # cs))"

text \<open>
  The scan over digits and underscores: an underscore may not follow an underscore, and
  the last character may not be one. \<open>prev_us\<close> tells whether the previous character
  was an underscore.
\<close>

fun scan_digits :: "bool \<Rightarrow> string \<Rightarrow> bool" where
  "scan_digits prev_us [] = (\<not> prev_us)"
| "scan_digits prev_us (c # cs) =
     (if is_underscore c \<and> prev_us then False else scan_digits (is_underscore c) cs)"

definition digits_value :: "string \<Rightarrow> nat" where
  "digits_value ds = foldl (\<lambda>acc c. acc * 10 + digit_value c) 0 ds"

text \<open>
  \<open>int(s)\<close> for a \<open>str\<close>, base 10: optional surrounding whitespace, an optional sign, then
  decimal digits, single underscores allowed between digits; anything else raises
  \<open>ValueError\<close>, and so does a literal of more digits than the interpreter converts
  (4300 unless configured otherwise).
\<close>

definition int_max_str_digits :: nat where
  "int_max_str_digits = 4300"

definition py_int_str :: "string \<Rightarrow> exn + int" where
  "py_int_str s =
     (let (neg, t) = strip_sign (dropWhile py_isspace s);
          body = takeWhile digit_or_underscore t;
          rest = dropWhile digit_or_underscore t
      in if body = [] then Inl ValueError
         else if is_underscore (hd body) then Inl ValueError
         else if int_max_str_digits < length (filter is_digit body) then Inl ValueError
         else if scan_digits False body \<and> dropWhile py_isspace rest = []
         then Inr ((if neg then - 1 else 1) * int (digits_value (filter is_digit body)))
         else Inl ValueError)"

fun py_int :: "pyval \<Rightarrow> exn + int" where
  "py_int (PyInt i) = Inr i"
| "py_int (PyStr s) = py_int_str s"

subsection \<open>Start-up configuration\<close>

definition environ_get :: "(string \<rightharpoonup> string) \<Rightarrow> string \<Rightarrow> pyval \<Rightarrow> pyval" where
  "environ_get environ key failobj = (case environ key of None \<Rightarrow> failobj | Some v \<Rightarrow> PyStr v)"

text \<open>
  \<open>PORT = int(os.environ.get("PORT", 8080))\<close>. The value of an environment variable is
  modelled as a \<open>string\<close> too, which leaves out values with characters beyond U+00FF.
\<close>

definition module_PORT :: "(string \<rightharpoonup> string) \<Rightarrow> exn + int" where
  "module_PORT environ = py_int (environ_get environ ''PORT'' (PyInt 8080))"

definition HOST :: string where
  "HOST = ''0.0.0.0''"

subsection \<open>Request headers\<close>

text \<open>
  \<open>str.lower\<close> on the characters of ISO-8859-1: the ASCII capitals and the accented
  capitals U+00C0 to U+00DE (without the multiplication sign U+00D7) move up by 32.
\<close>

definition lower_char :: "char \<Rightarrow> char" where
  "lower_char c =
     (let n = (of_char c :: nat)
      in if 65 \<le> n \<and> n \<le> 90 then char_of (n + 32)
         else if 192 \<le> n \<and> n \<le> 222 then (if n = 215 then c else char_of (n + 32))
         else c)"

definition py_lower :: "string \<Rightarrow> string" where
  "py_lower s = map lower_char s"

text \<open>
  \<open>self.headers.get(name, failobj)\<close>: the value of the first header whose name equals
  \<open>name\<close> without regard to case, else \<open>failobj\<close>.
\<close>

fun headers_get :: "(string \<times> string) list \<Rightarrow> string \<Rightarrow> pyval \<Rightarrow> pyval" where
  "headers_get [] name failobj = failobj"
| "headers_get ((k, v) # hs) name failobj =
     (if py_lower k = py_lower name then PyStr v else headers_get hs name failobj)"

subsection \<open>The handler object\<close>

datatype header_line = StatusLine nat | HeaderLine string string

text \<open>
  What reaches the socket: the header section, written in one piece by \<open>end_headers\<close>,
  and the byte strings given to \<open>wfile.write\<close>.
\<close>

datatype chunk = Head "header_line list" | Data string

record handler =
  path :: string
  request_version :: string
  headers :: "(string \<times> string) list"
  rfile :: string
  rfile_eof :: bool
  rfile_reads :: "int list"
  alloc_limit :: nat
  version_string :: string
  date_time_string :: string
  headers_buffer :: "header_line list"
  wfile :: "chunk list"
  wfile_open :: bool

text \<open>
  \<^item> \<open>path\<close> and \<open>request_version\<close> are what the library's \<open>parse_request\<close> leaves in
    the attributes of these names, \<open>headers\<close> the parsed header fields in the order
    received;
  \<^item> \<open>rfile\<close> holds the bytes the client sends after the header section and that have
    not been read yet; \<open>rfile_eof\<close> tells whether the client closes its side after them
    (otherwise a read beyond them waits for ever); \<open>rfile_reads\<close> records the size
    argument of every \<open>read\<close> call made; \<open>alloc_limit\<close> is the size of the largest byte
    string the process can allocate;
  \<^item> \<open>headers_buffer\<close> is the header section as buffered so far, \<open>wfile\<close> what has been
    written to the socket, \<open>wfile_open\<close> whether the socket accepts writes.
\<close>

text \<open>
  A request as the library passes it on: \<open>request_target\<close> is the second word of the
  request line; \<open>request_line_version\<close> is its third word, and \<open>HTTP/0.9\<close> for a line of
  two words, which the library accepts for GET only.
\<close>

record connection =
  request_target :: string
  request_line_version :: string
  request_headers :: "(string \<times> string) list"
  request_body :: string
  client_closes :: bool
  socket_writable :: bool
  memory_limit :: nat
  server_version :: string
  server_date :: string

text \<open>
  \<open>parse_request\<close> reduces a target that starts with \<open>//\<close> to a single leading slash:
  \<open>if self.path.startswith('//'): self.path = '/' + self.path.lstrip('/')\<close>.
\<close>

definition collapse_slashes :: "string \<Rightarrow> string" where
  "collapse_slashes p =
     (if take 2 p = ''//'' then CHR ''/'' # dropWhile (\<lambda>c. c = CHR ''/'') p else p)"

definition Handler :: "connection \<Rightarrow> handler" where
  "Handler c =
     \<lparr>path = collapse_slashes (request_target c), request_version = request_line_version c,
      headers = request_headers c,
      rfile = request_body c, rfile_eof = client_closes c, rfile_reads = [],
      alloc_limit = memory_limit c,
      version_string = server_version c, date_time_string = server_date c,
      headers_buffer = [], wfile = [], wfile_open = socket_writable c\<rparr>"

text \<open>
  \<open>rfile.read(n)\<close> on the buffered reader of the socket. A size that does not fit the
  machine's signed 64-bit index, or for which a byte string cannot exist (the object
  header takes 33 bytes), raises \<open>OverflowError\<close>; another size below \<open>-1\<close> raises
  \<open>ValueError\<close>; \<open>read(-1)\<close> reads to the end of the stream. Otherwise the reader
  allocates the \<open>n\<close> bytes, which raises \<open>MemoryError\<close> when the process cannot have
  them, and returns \<open>n\<close> bytes, or all the bytes up to the end of the stream if that
  comes first.
\<close>

definition max_bytes_size :: int where
  "max_bytes_size = 2 ^ 63 - 34"

definition rfile_read :: "int \<Rightarrow> handler \<Rightarrow> string result \<times> handler" where
  "rfile_read n self =
     (let self = self\<lparr>rfile_reads := rfile_reads self @ [n]\<rparr>
      in if n < - (2 ^ 63) \<or> max_bytes_size < n then (Raise OverflowError, self)
         else if n < - 1 then (Raise ValueError, self)
         else if n = - 1 then
           (if rfile_eof self
            then (if alloc_limit self < length (rfile self) then (Raise MemoryError, self)
                  else (Return (rfile self), self\<lparr>rfile := []\<rparr>))
            else (Block, self))
         else if alloc_limit self < nat n then (Raise MemoryError, self)
         else if nat n \<le> length (rfile self)
         then (Return (take (nat n) (rfile self)), self\<lparr>rfile := drop (nat n) (rfile self)\<rparr>)
         else if rfile_eof self then (Return (rfile self), self\<lparr>rfile := []\<rparr>)
         else (Block, self))"

definition wfile_write :: "chunk \<Rightarrow> handler \<Rightarrow> unit result \<times> handler" where
  "wfile_write c self =
     (if wfile_open self then (Return (), self\<lparr>wfile := wfile self @ [c]\<rparr>)
      else (Raise BrokenPipeError, self))"

text \<open>
  \<open>send_header\<close> buffers one header, \<open>send_response(code)\<close> the status line and the
  \<open>Server\<close> and \<open>Date\<close> headers, and \<open>end_headers\<close> writes the buffered section to the
  socket and empties the buffer; each of them does nothing when \<open>request_version\<close> is
  \<open>HTTP/0.9\<close>. The line that \<open>send_response\<close> logs on the standard error stream is left
  out.
\<close>

definition send_header :: "string \<Rightarrow> string \<Rightarrow> handler \<Rightarrow> unit result \<times> handler" where
  "send_header keyword val self =
     (if request_version self = ''HTTP/0.9'' then (Return (), self)
      else (Return (), self\<lparr>headers_buffer := headers_buffer self @ [HeaderLine keyword val]\<rparr>))"

definition send_response_only :: "nat \<Rightarrow> handler \<Rightarrow> unit result \<times> handler" where
  "send_response_only code self =
     (if request_version self = ''HTTP/0.9'' then (Return (), self)
      else (Return (), self\<lparr>headers_buffer := headers_buffer self @ [StatusLine code]\<rparr>))"

definition send_response :: "nat \<Rightarrow> handler \<Rightarrow> unit result \<times> handler" where
  "send_response code =
     and_then (send_response_only code) (\<lambda>_.
     and_then (\<lambda>self. send_header ''Server'' (version_string self) self) (\<lambda>_ self.
     send_header ''Date'' (date_time_string self) self))"

definition flush_headers :: "handler \<Rightarrow> unit result \<times> handler" where
  "flush_headers self =
     and_then (wfile_write (Head (headers_buffer self)))
       (\<lambda>_ self. (Return (), self\<lparr>headers_buffer := []\<rparr>)) self"

definition end_headers :: "handler \<Rightarrow> unit result \<times> handler" where
  "end_headers self =
     (if request_version self = ''HTTP/0.9'' then (Return (), self) else flush_headers self)"

subsection \<open>\<open>json.dumps\<close> and \<open>str.encode\<close>\<close>

text \<open>The values the two dictionaries of the program hold.\<close>

datatype jval = JStr string | JInt int | JBool bool

definition digit_char :: "nat \<Rightarrow> char" where
  "digit_char d = char_of (48 + d)"

fun str_nat :: "nat \<Rightarrow> string" where
  "str_nat n = (if n < 10 then [digit_char n] else str_nat (n div 10) @ [digit_char (n mod 10)])"

declare str_nat.simps [simp del]

definition str_int :: "int \<Rightarrow> string" where
  "str_int i = (if i < 0 then CHR ''-'' # str_nat (nat (- i)) else str_nat (nat i))"

definition hex_char :: "nat \<Rightarrow> char" where
  "hex_char d = (if d < 10 then char_of (48 + d) else char_of (87 + d))"

text \<open>
  With \<open>ensure_ascii\<close> (the default), a character other than the printable ASCII ones, a
  double quote (0x22) or a backslash (0x5C) is written as an escape: a short one for
  backspace, tab, line feed, form feed and carriage return, else \<open>\u00XX\<close> with
  lower-case hexadecimal digits.
\<close>

definition escape_char :: "char \<Rightarrow> string" where
  "escape_char c =
     (if c = CHR 0x22 then [CHR 0x5C, CHR 0x22]
      else if c = CHR 0x5C then [CHR 0x5C, CHR 0x5C]
      else if c = CHR 0x0A then [CHR 0x5C, CHR ''n'']
      else if c = CHR 0x0D then [CHR 0x5C, CHR ''r'']
      else if c = CHR 0x09 then [CHR 0x5C, CHR ''t'']
      else if c = CHR 0x0C then [CHR 0x5C, CHR ''f'']
      else if c = CHR 0x08 then [CHR 0x5C, CHR ''b'']
      else if 32 \<le> (of_char c :: nat) \<and> (of_char c :: nat) \<le> 126 then [c]
      else [CHR 0x5C, CHR ''u'', CHR ''0'', CHR ''0'',
            hex_char (of_char c div 16), hex_char (of_char c mod 16)])"

definition dumps_str :: "string \<Rightarrow> string" where
  "dumps_str s = CHR 0x22 # concat (map escape_char s) @ [CHR 0x22]"

fun dumps_val :: "jval \<Rightarrow> string" where
  "dumps_val (JStr s) = dumps_str s"
| "dumps_val (JInt i) = str_int i"
| "dumps_val (JBool b) = (if b then ''true'' else ''false'')"

definition dumps_item :: "string \<times> jval \<Rightarrow> string" where
  "dumps_item kv = dumps_str (fst kv) @ '': '' @ dumps_val (snd kv)"

fun join_items :: "string list \<Rightarrow> string" where
  "join_items [] = []"
| "join_items [x] = x"
| "join_items (x # y # ys) = x @ '', '' @ join_items (y # ys)"

text \<open>\<open>json.dumps\<close> of a dictionary, its items in insertion order.\<close>

definition json_dumps :: "(string \<times> jval) list \<Rightarrow> string" where
  "json_dumps d = CHR ''{'' # join_items (map dumps_item d) @ ''}''"

text \<open>
  \<open>str.encode()\<close> is UTF-8: a character below 128 is one byte, one from 128 to 255 is
  two.
\<close>

definition encode_char :: "char \<Rightarrow> string" where
  "encode_char c =
     (let n = (of_char c :: nat)
      in if n < 128 then [c] else [char_of (192 + n div 64), char_of (128 + n mod 64)])"

definition str_encode :: "string \<Rightarrow> string" where
  "str_encode s = concat (map encode_char s)"

subsection \<open>\<open>bytes.decode('utf-8')\<close>\<close>

text \<open>
  The strict decoder: it yields the code points, and rejects a stray or missing
  continuation byte, an overlong form, a surrogate and a value above U+10FFFF.
\<close>

definition in_range :: "nat \<Rightarrow> nat \<Rightarrow> char \<Rightarrow> bool" where
  "in_range lo hi b \<longleftrightarrow> lo \<le> (of_char b :: nat) \<and> (of_char b :: nat) \<le> hi"

definition cont_bits :: "char \<Rightarrow> nat" where
  "cont_bits b = of_char b - 128"

fun utf8_decode :: "string \<Rightarrow> nat list option" where
  "utf8_decode [] = Some []"
| "utf8_decode (b0 # bs) =
     (let n0 = (of_char b0 :: nat)
      in if n0 < 128 then map_option ((#) n0) (utf8_decode bs)
         else if 194 \<le> n0 \<and> n0 \<le> 223 then
           (case bs of
              b1 # r \<Rightarrow>
                if in_range 128 191 b1
                then map_option ((#) ((n0 - 192) * 64 + cont_bits b1)) (utf8_decode r)
                else None
            | _ \<Rightarrow> None)
         else if 224 \<le> n0 \<and> n0 \<le> 239 then
           (case bs of
              b1 # b2 # r \<Rightarrow>
                if in_range (if n0 = 224 then 160 else 128) (if n0 = 237 then 159 else 191) b1
                   \<and> in_range 128 191 b2
                then map_option ((#) ((n0 - 224) * 4096 + cont_bits b1 * 64 + cont_bits b2))
                       (utf8_decode r)
                else None
            | _ \<Rightarrow> None)
         else if 240 \<le> n0 \<and> n0 \<le> 244 then
           (case bs of
              b1 # b2 # b3 # r \<Rightarrow>
                if in_range (if n0 = 240 then 144 else 128) (if n0 = 244 then 143 else 191) b1
                   \<and> in_range 128 191 b2 \<and> in_range 128 191 b3
                then map_option
                       ((#) ((n0 - 240) * 262144 + cont_bits b1 * 4096 + cont_bits b2 * 64
                             + cont_bits b3))
                       (utf8_decode r)
                else None
            | _ \<Rightarrow> None)
         else None)"

definition bytes_decode :: "string \<Rightarrow> exn + nat list" where
  "bytes_decode bs = (case utf8_decode bs of None \<Rightarrow> Inl UnicodeDecodeError | Some s \<Rightarrow> Inr s)"

text \<open>A pure step inside a sequence: an exception value becomes a raise.\<close>

definition lift :: "exn + 'a \<Rightarrow> 's \<Rightarrow> 'a result \<times> 's" where
  "lift r s = (case r of Inl e \<Rightarrow> (Raise e, s) | Inr x \<Rightarrow> (Return x, s))"

subsection \<open>The two request methods\<close>

definition do_GET :: "int \<Rightarrow> handler \<Rightarrow> unit result \<times> handler" where
  "do_GET PORT =
     and_then (send_response 200) (\<lambda>_.
     and_then (send_header ''Content-type'' ''application/json'') (\<lambda>_.
     and_then end_headers (\<lambda>_ self.
     wfile_write (Data (str_encode (json_dumps
       [(''status'', JStr ''healthy''),
        (''port'', JInt PORT),
        (''method'', JStr ''GET''),
        (''path'', JStr (path self))]))) self)))"

text \<open>\<open>int(self.headers.get('Content-Length', 0))\<close>\<close>

definition content_length_header :: "handler \<Rightarrow> exn + int" where
  "content_length_header self = py_int (headers_get (headers self) ''Content-Length'' (PyInt 0))"

definition do_POST :: "int \<Rightarrow> handler \<Rightarrow> unit result \<times> handler" where
  "do_POST PORT =
     and_then (\<lambda>self. lift (content_length_header self) self)
       (\<lambda>content_length.
     and_then (if content_length \<noteq> 0
               then and_then (rfile_read content_length) (\<lambda>bs. lift (bytes_decode bs))
               else (\<lambda>self. (Return [], self)))
       (\<lambda>body.
     and_then (send_response 200) (\<lambda>_.
     and_then (send_header ''Content-type'' ''application/json'') (\<lambda>_.
     and_then end_headers (\<lambda>_ self.
     wfile_write (Data (str_encode (json_dumps
       [(''status'', JStr ''healthy''),
        (''port'', JInt PORT),
        (''method'', JStr ''POST''),
        (''path'', JStr (path self)),
        (''body_received'', JBool (if body \<noteq> [] then True else False))]))) self)))))"

subsection \<open>The server loop and the module body\<close>

text \<open>
  The library calls \<open>do_GET\<close> for the command \<open>GET\<close> and \<open>do_POST\<close> for \<open>POST\<close>; a request
  with another command is answered by the library itself and reaches neither method.
\<close>

datatype command = GET | POST

fun handle :: "int \<Rightarrow> command \<times> connection \<Rightarrow> unit result \<times> handler" where
  "handle PORT (GET, c) = do_GET PORT (Handler c)"
| "handle PORT (POST, c) = do_POST PORT (Handler c)"

text \<open>
  \<open>TCPServer.serve_forever\<close> takes the connections one after the other, each with a new
  handler instance. An exception of the handler is caught and reported by the server,
  which goes on with the next connection; a handler that never returns stops the loop,
  since the server has one thread.
\<close>

fun serve_forever :: "int \<Rightarrow> (command \<times> connection) list \<Rightarrow> (unit result \<times> handler) list" where
  "serve_forever PORT [] = []"
| "serve_forever PORT (rq # rqs) =
     (let out = handle PORT rq
      in if fst out = Block then [out] else out # serve_forever PORT rqs)"

text \<open>
  The module body: read \<open>PORT\<close>, print the start-up line, bind the listener, serve.
  \<open>bind\<close> stands for the operating system's answer to binding the address it is given.
  The result holds what was printed and either the exception that ended the process or
  the outcome of every connection handled.
\<close>

definition main ::
  "(string \<rightharpoonup> string) \<Rightarrow> (string \<times> int \<Rightarrow> exn option) \<Rightarrow> (command \<times> connection) list
   \<Rightarrow> string list \<times> (exn + (unit result \<times> handler) list)" where
  "main environ bind rqs =
     (case module_PORT environ of
        Inl e \<Rightarrow> ([], Inl e)
      | Inr PORT \<Rightarrow>
          (let stdout = [''Starting server on '' @ HOST @ '':'' @ str_int PORT]
           in case bind (HOST, PORT) of
                Some e \<Rightarrow> (stdout, Inl e)
              | None \<Rightarrow> (stdout, Inr (serve_forever PORT rqs))))"

subsection \<open>Reading a response back\<close>

text \<open>
  What a client does with the body of a response: decode the bytes as UTF-8 and parse the
  text as a JSON object, as \<open>json.loads\<close> does. The parser covers the objects this
  server can produce: members whose values are strings, integers or booleans, and
  characters up to U+00FF. It yields the members in the order they are written.
\<close>

datatype token = TLBrace | TRBrace | TColon | TComma | TString string | TInt int | TTrue | TFalse

definition hex_value :: "char \<Rightarrow> nat option" where
  "hex_value c =
     (let n = (of_char c :: nat)
      in if 48 \<le> n \<and> n \<le> 57 then Some (n - 48)
         else if 97 \<le> n \<and> n \<le> 102 then Some (n - 87)
         else if 65 \<le> n \<and> n \<le> 70 then Some (n - 55)
         else None)"

definition hex4 :: "char \<Rightarrow> char \<Rightarrow> char \<Rightarrow> char \<Rightarrow> nat option" where
  "hex4 a b c d =
     (case (hex_value a, hex_value b, hex_value c, hex_value d) of
        (Some w, Some x, Some y, Some z) \<Rightarrow> Some (((w * 16 + x) * 16 + y) * 16 + z)
      | _ \<Rightarrow> None)"

definition unescape :: "char \<Rightarrow> char option" where
  "unescape e =
     (if e = CHR 0x22 \<or> e = CHR 0x5C \<or> e = CHR ''/'' then Some e
      else if e = CHR ''b'' then Some (CHR 0x08)
      else if e = CHR ''f'' then Some (CHR 0x0C)
      else if e = CHR ''n'' then Some (CHR 0x0A)
      else if e = CHR ''r'' then Some (CHR 0x0D)
      else if e = CHR ''t'' then Some (CHR 0x09)
      else None)"

definition consfst :: "'a \<Rightarrow> ('a list \<times> 'b) option \<Rightarrow> ('a list \<times> 'b) option" where
  "consfst x r = map_option (\<lambda>p. (x # fst p, snd p)) r"

fun loads_chars :: "string \<Rightarrow> (string \<times> string) option" where
  "loads_chars [] = None"
| "loads_chars (c # cs) =
     (if c = CHR 0x22 then Some ([], cs)
      else if c = CHR 0x5C then
        (case cs of
           [] \<Rightarrow> None
         | e # r \<Rightarrow>
             if e = CHR ''u'' then
               (case r of
                  h1 # h2 # h3 # h4 # r' \<Rightarrow>
                    (case hex4 h1 h2 h3 h4 of
                       None \<Rightarrow> None
                     | Some n \<Rightarrow> if n < 256 then consfst (char_of n) (loads_chars r') else None)
                | _ \<Rightarrow> None)
             else
               (case unescape e of
                  None \<Rightarrow> None
                | Some x \<Rightarrow> consfst x (loads_chars r)))
      else if (of_char c :: nat) < 32 then None
      else consfst c (loads_chars cs))"

definition lex_nat :: "string \<Rightarrow> (nat \<times> string) option" where
  "lex_nat s =
     (let ds = takeWhile is_digit s
      in if ds = [] \<or> (hd ds = CHR ''0'' \<and> 1 < length ds) then None
         else Some (digits_value ds, dropWhile is_digit s))"

definition json_space :: "char \<Rightarrow> bool" where
  "json_space c \<longleftrightarrow> c = CHR '' '' \<or> c = CHR 0x09 \<or> c = CHR 0x0A \<or> c = CHR 0x0D"

function json_lex :: "string \<Rightarrow> token list option" where
  "json_lex [] = Some []"
| "json_lex (c # cs) =
     (if json_space c then json_lex cs
      else if c = CHR ''{'' then map_option ((#) TLBrace) (json_lex cs)
      else if c = CHR ''}'' then map_option ((#) TRBrace) (json_lex cs)
      else if c = CHR '':'' then map_option ((#) TColon) (json_lex cs)
      else if c = CHR '','' then map_option ((#) TComma) (json_lex cs)
      else if c = CHR 0x22 then
        (case loads_chars cs of
           None \<Rightarrow> None
         | Some (s, r) \<Rightarrow> map_option ((#) (TString s)) (json_lex r))
      else if c = CHR ''-'' then
        (case lex_nat cs of
           None \<Rightarrow> None
         | Some (n, r) \<Rightarrow> map_option ((#) (TInt (- int n))) (json_lex r))
      else if is_digit c then
        (case lex_nat (c # cs) of
           None \<Rightarrow> None
         | Some (n, r) \<Rightarrow> map_option ((#) (TInt (int n))) (json_lex r))
      else if take 4 (c # cs) = ''true'' then map_option ((#) TTrue) (json_lex (drop 3 cs))
      else if take 5 (c # cs) = ''false'' then map_option ((#) TFalse) (json_lex (drop 4 cs))
      else None)"
  by pat_completeness auto
termination
proof -
  have chars: "length r < length s" if "loads_chars s = Some (x, r)" for s x r
    using that
  proof (induction s arbitrary: x r rule: loads_chars.induct)
    case 1
    then show ?case by simp
  next
    case (2 c cs)
    then show ?case
      by (fastforce simp: consfst_def split: if_splits list.splits option.splits)
  qed
  have nat1: "length r \<le> length s" if "lex_nat s = Some (n, r)" for s n r
    using that by (auto simp: lex_nat_def Let_def length_dropWhile_le split: if_splits)
  have nat2: "length r \<le> length cs" if "is_digit c" "lex_nat (c # cs) = Some (n, r)" for c cs n r
    using that by (auto simp: lex_nat_def Let_def length_dropWhile_le split: if_splits)
  show ?thesis
  proof (relation "measure length", goal_cases)
    case (7 c cs x2 x y)
    then show ?case using chars [of cs x y] by simp
  next
    case (8 c cs x2 x y)
    then show ?case using nat1 [of cs x y] by simp
  next
    case (9 c cs x2 x y)
    then show ?case using nat2 [of c cs x y] by simp
  qed simp_all
qed

fun parse_value :: "token \<Rightarrow> jval option" where
  "parse_value (TString s) = Some (JStr s)"
| "parse_value (TInt i) = Some (JInt i)"
| "parse_value TTrue = Some (JBool True)"
| "parse_value TFalse = Some (JBool False)"
| "parse_value _ = None"

fun parse_members :: "token list \<Rightarrow> (string \<times> jval) list option" where
  "parse_members (k # c # v # d # rest) =
     (case k of
        TString key \<Rightarrow>
          (case parse_value v of
             None \<Rightarrow> None
           | Some x \<Rightarrow>
               if c \<noteq> TColon then None
               else if d = TRBrace \<and> rest = [] then Some [(key, x)]
               else if d = TComma then map_option ((#) (key, x)) (parse_members rest)
               else None)
      | _ \<Rightarrow> None)"
| "parse_members _ = None"

definition json_loads :: "string \<Rightarrow> (string \<times> jval) list option" where
  "json_loads s =
     (case json_lex s of
        Some (TLBrace # ts) \<Rightarrow> if ts = [TRBrace] then Some [] else parse_members ts
      | _ \<Rightarrow> None)"


definition body_json :: "string \<Rightarrow> (string \<times> jval) list option" where
  "body_json bs =
     (case utf8_decode bs of
        None \<Rightarrow> None
      | Some cps \<Rightarrow> if list_all (\<lambda>n. n < 256) cps then json_loads (map char_of cps) else None)"

subsection \<open>Observing a response\<close>

text \<open>
  The header section of the response is the first thing written, if one is written at
  all; the body is made of the byte strings written; a header is looked up without
  regard to the case of its name.
\<close>

definition response_head :: "handler \<Rightarrow> header_line list" where
  "response_head self = (case wfile self of Head ls # _ \<Rightarrow> ls | _ \<Rightarrow> [])"

fun chunk_data :: "chunk \<Rightarrow> string" where
  "chunk_data (Head _) = []"
| "chunk_data (Data bs) = bs"

definition response_body :: "handler \<Rightarrow> string" where
  "response_body self = concat (map chunk_data (wfile self))"

fun status_of :: "header_line list \<Rightarrow> nat option" where
  "status_of (StatusLine code # _) = Some code"
| "status_of _ = None"

fun header_of :: "header_line list \<Rightarrow> string \<Rightarrow> string option" where
  "header_of [] name = None"
| "header_of (StatusLine _ # ls) name = header_of ls name"
| "header_of (HeaderLine k v # ls) name =
     (if py_lower k = py_lower name then Some v else header_of ls name)"

definition response_status :: "handler \<Rightarrow> nat option" where
  "response_status self = status_of (response_head self)"

definition response_header :: "handler \<Rightarrow> string \<Rightarrow> string option" where
  "response_header self name = header_of (response_head self) name"

definition response_json :: "handler \<Rightarrow> (string \<times> jval) list option" where
  "response_json self = body_json (response_body self)"

text \<open>A field of the JSON object of the response.\<close>

definition response_field :: "handler \<Rightarrow> string \<Rightarrow> jval option" where
  "response_field self name =
     (case response_json self of None \<Rightarrow> None | Some obj \<Rightarrow> map_of obj name)"

text \<open>Every status code the handler has buffered or written.\<close>

fun line_codes :: "header_line list \<Rightarrow> nat list" where
  "line_codes [] = []"
| "line_codes (StatusLine code # ls) = code # line_codes ls"
| "line_codes (HeaderLine _ _ # ls) = line_codes ls"

fun chunk_lines :: "chunk \<Rightarrow> header_line list" where
  "chunk_lines (Head ls) = ls"
| "chunk_lines (Data _) = []"

definition status_codes :: "handler \<Rightarrow> nat list" where
  "status_codes self = line_codes (concat (map chunk_lines (wfile self)) @ headers_buffer self)"

text \<open>The number of bytes of the request body the handler has taken from the stream.\<close>

definition bytes_read :: "connection \<Rightarrow> handler \<Rightarrow> nat" where
  "bytes_read c self = length (request_body c) - length (rfile self)"

text \<open>No header of the given name is present.\<close>

definition header_absent :: "(string \<times> string) list \<Rightarrow> string \<Rightarrow> bool" where
  "header_absent hs name = list_all (\<lambda>kv. py_lower (fst kv) \<noteq> py_lower name) hs"

subsection \<open>Auxiliary notions for the proofs\<close>

text \<open>The tokens of a dumped value and of the members of a dumped object.\<close>

fun tok :: "jval \<Rightarrow> token" where
  "tok (JStr s) = TString s"
| "tok (JInt i) = TInt i"
| "tok (JBool b) = (if b then TTrue else TFalse)"

fun members_tokens :: "(string \<times> jval) list \<Rightarrow> token list" where
  "members_tokens [] = [TRBrace]"
| "members_tokens [kv] = [TString (fst kv), TColon, tok (snd kv), TRBrace]"
| "members_tokens (kv # kv' # kvs) =
     TString (fst kv) # TColon # tok (snd kv) # TComma # members_tokens (kv' # kvs)"

text \<open>The text after a number does not go on with a digit.\<close>

definition no_digit_ahead :: "string \<Rightarrow> bool" where
  "no_digit_ahead rest \<longleftrightarrow> (case rest of [] \<Rightarrow> True | c # _ \<Rightarrow> \<not> is_digit c)"

text \<open>A text of ASCII characters only.\<close>

definition ascii :: "string \<Rightarrow> bool" where
  "ascii s = list_all (\<lambda>c. (of_char c :: nat) < 128) s"


text \<open>
  The dictionaries of the two methods, the header section both buffer, and the part of
  \<open>do_POST\<close> that follows the reading of the body.
\<close>

definition get_body :: "int \<Rightarrow> string \<Rightarrow> (string \<times> jval) list" where
  "get_body PORT p = [(''status'', JStr ''healthy''), (''port'', JInt PORT), (''method'', JStr ''GET''), (''path'', JStr p)]"

definition ok_head :: "connection \<Rightarrow> header_line list" where
  "ok_head c = [StatusLine 200, HeaderLine ''Server'' (server_version c),
     HeaderLine ''Date'' (server_date c), HeaderLine ''Content-type'' ''application/json'']"

text \<open>What a response of the given header section and body puts on the socket.\<close>

definition written :: "string \<Rightarrow> header_line list \<Rightarrow> string \<Rightarrow> chunk list" where
  "written version ls b = (if version = ''HTTP/0.9'' then [Data b] else [Head ls, Data b])"

text \<open>What stays in the buffer when the socket refuses the header section.\<close>

definition unsent :: "string \<Rightarrow> header_line list \<Rightarrow> header_line list" where
  "unsent version ls = (if version = ''HTTP/0.9'' then [] else ls)"

definition post_body :: "int \<Rightarrow> string \<Rightarrow> bool \<Rightarrow> (string \<times> jval) list" where
  "post_body PORT p b = [(''status'', JStr ''healthy''), (''port'', JInt PORT),
     (''method'', JStr ''POST''), (''path'', JStr p), (''body_received'', JBool b)]"

definition ok_lines :: "handler \<Rightarrow> header_line list" where
  "ok_lines self = [StatusLine 200, HeaderLine ''Server'' (version_string self),
     HeaderLine ''Date'' (date_time_string self), HeaderLine ''Content-type'' ''application/json'']"

definition respond_post :: "int \<Rightarrow> nat list \<Rightarrow> handler \<Rightarrow> unit result \<times> handler" where
  "respond_post PORT body =
     and_then (send_response 200) (\<lambda>_.
     and_then (send_header ''Content-type'' ''application/json'') (\<lambda>_.
     and_then end_headers (\<lambda>_ self.
     wfile_write (Data (str_encode (json_dumps (post_body PORT (path self) (body \<noteq> []))))) self)))"

text \<open>
  The first two statements of \<open>do_POST\<close>, which read the body: the response phase
  follows when they return.
\<close>

definition read_body :: "handler \<Rightarrow> nat list result \<times> handler" where
  "read_body =
     and_then (\<lambda>self. lift (content_length_header self) self)
       (\<lambda>content_length.
          if content_length \<noteq> 0
          then and_then (rfile_read content_length) (\<lambda>bs. lift (bytes_decode bs))
          else (\<lambda>self. (Return [], self)))"

text \<open>
  The integer literals of \<open>int\<close>, as a grammar: whitespace, an optional sign, one or more
  groups of digits separated by single underscores, whitespace. It is written as a
  recogniser with one function per place in the grammar, independently of \<open>py_int_str\<close>.
\<close>

fun lit_trail :: "string \<Rightarrow> bool" where
  "lit_trail [] = True"
| "lit_trail (c # cs) = (py_isspace c \<and> lit_trail cs)"

fun lit_digits :: "string \<Rightarrow> bool" where
  "lit_digits [] = True"
| "lit_digits (c # cs) =
     (if is_digit c then lit_digits cs
      else if is_underscore c then
        (case cs of [] \<Rightarrow> False | d # ds \<Rightarrow> is_digit d \<and> lit_digits ds)
      else lit_trail (c # cs))"

fun lit_number :: "string \<Rightarrow> bool" where
  "lit_number [] = False"
| "lit_number (c # cs) = (is_digit c \<and> lit_digits cs)"

fun lit_signed :: "string \<Rightarrow> bool" where
  "lit_signed [] = False"
| "lit_signed (c # cs) =
     (if c = CHR ''+'' \<or> c = CHR ''-'' then lit_number cs else lit_number (c # cs))"

fun int_literal :: "string \<Rightarrow> bool" where
  "int_literal [] = False"
| "int_literal (c # cs) = (if py_isspace c then int_literal cs else lit_signed (c # cs))"

text \<open>The test \<open>py_int_str\<close> makes on what follows the sign.\<close>

definition int_ok :: "string \<Rightarrow> bool" where
  "int_ok t \<longleftrightarrow>
     takeWhile digit_or_underscore t \<noteq> []
     \<and> \<not> is_underscore (hd (takeWhile digit_or_underscore t))
     \<and> scan_digits False (takeWhile digit_or_underscore t)
     \<and> dropWhile py_isspace (dropWhile digit_or_underscore t) = []"

subsection \<open>Example connections\<close>

definition example_get :: connection where
  "example_get =
     \<lparr>request_target = ''/foo/bar?x=1'', request_line_version = ''HTTP/1.1'',
      request_headers = [], request_body = [],
      client_closes = False, socket_writable = True, memory_limit = 1000000,
      server_version = ''BaseHTTP/0.6 Python/3.11.10'',
      server_date = ''Thu, 01 Jan 1970 00:00:00 GMT''\<rparr>"

text \<open>The request line \<open>GET //foo HTTP/1.1\<close>, and the request line \<open>GET /\<close>.\<close>

definition example_get_slashes :: connection where
  "example_get_slashes = example_get\<lparr>request_target := ''//foo''\<rparr>"

definition example_get_simple :: connection where
  "example_get_simple =
     example_get\<lparr>request_target := ''/'', request_line_version := ''HTTP/0.9''\<rparr>"

text \<open>A POST of \<open>hello\<close> with \<open>Content-Length: 5\<close>.\<close>

definition example_post :: connection where
  "example_post =
     \<lparr>request_target = ''/submit'', request_line_version = ''HTTP/1.1'',
      request_headers = [(''Content-Length'', ''5'')],
      request_body = ''hello'', client_closes = False, socket_writable = True,
      memory_limit = 1000000,
      server_version = ''BaseHTTP/0.6 Python/3.11.10'',
      server_date = ''Thu, 01 Jan 1970 00:00:00 GMT''\<rparr>"

text \<open>A POST whose bytes are on the connection but that has no \<open>Content-Length\<close>.\<close>

definition example_post_no_length :: connection where
  "example_post_no_length = example_post\<lparr>request_headers := [(''Host'', ''localhost'')]\<rparr>"

text \<open>A POST that announces five bytes, sends two and closes its side.\<close>

definition example_post_short :: connection where
  "example_post_short = example_post\<lparr>request_body := ''hi'', client_closes := True\<rparr>"

text \<open>A POST whose \<open>Content-Length\<close> is not an integer.\<close>

definition example_post_bad_length :: connection where
  "example_post_bad_length = example_post\<lparr>request_headers := [(''Content-Length'', ''abc'')]\<rparr>"


text \<open>An environment that sets the port, and a listener address that is free.\<close>

definition example_environ :: "string \<rightharpoonup> string" where
  "example_environ = [''PORT'' \<mapsto> ''9090'']"

definition example_bind :: "string \<times> int \<Rightarrow> exn option" where
  "example_bind address = None"

section \<open>Properties of the library model\<close>

subsection \<open>A dumped string is read back unchanged\<close>

lemma hex_value_hex_char: "d < 16 \<Longrightarrow> hex_value (hex_char d) = Some d"
  by (auto simp: hex_value_def hex_char_def Let_def)

lemma hex4_escape:
  "hex4 (CHR ''0'') (CHR ''0'') (hex_char (of_char c div 16)) (hex_char (of_char c mod 16))
     = Some (of_char c)"
proof -
  have d: "(of_char c :: nat) div 16 < 16"
    by (rule less_mult_imp_div_less) simp
  have m: "(of_char c :: nat) mod 16 < 16" by simp
  have z: "hex_value (CHR ''0'') = Some 0" by (simp add: hex_value_def)
  show ?thesis
    by (simp add: hex4_def z hex_value_hex_char [OF d] hex_value_hex_char [OF m])
qed

lemma loads_chars_escape: "loads_chars (escape_char c @ r) = consfst c (loads_chars r)"
proof -
  consider (quote) "c = CHR 0x22" | (bs) "c = CHR 0x5C" | (nl) "c = CHR 0x0A"
    | (cr) "c = CHR 0x0D" | (tab) "c = CHR 0x09" | (ff) "c = CHR 0x0C" | (bsp) "c = CHR 0x08"
    | (plain) "c \<noteq> CHR 0x22" "c \<noteq> CHR 0x5C" "32 \<le> (of_char c :: nat)" "(of_char c :: nat) \<le> 126"
    | (other) "c \<noteq> CHR 0x22" "c \<noteq> CHR 0x5C" "c \<noteq> CHR 0x0A" "c \<noteq> CHR 0x0D" "c \<noteq> CHR 0x09"
        "c \<noteq> CHR 0x0C" "c \<noteq> CHR 0x08" "\<not> (32 \<le> (of_char c :: nat) \<and> (of_char c :: nat) \<le> 126)"
    by blast
  then show ?thesis
  proof cases
    case plain
    then have "escape_char c = [c]" by (auto simp: escape_char_def)
    with plain show ?thesis by simp
  next
    case other
    then have "escape_char c = [CHR 0x5C, CHR ''u'', CHR ''0'', CHR ''0'',
            hex_char (of_char c div 16), hex_char (of_char c mod 16)]"
      by (simp add: escape_char_def)
    then show ?thesis by (simp add: hex4_escape)
  qed (simp_all add: escape_char_def unescape_def)
qed

lemma loads_chars_dumps:
  "loads_chars (concat (map escape_char s) @ CHR 0x22 # rest) = Some (s, rest)"
  by (induction s) (simp_all add: loads_chars_escape consfst_def)


lemma is_digit_digit_char: "d < 10 \<Longrightarrow> is_digit (digit_char d)"
  by (simp add: is_digit_def digit_char_def)

lemma digit_value_digit_char: "d < 10 \<Longrightarrow> digit_value (digit_char d) = d"
  by (simp add: digit_value_def digit_char_def)

lemma digit_char_eq_zero: "d < 10 \<Longrightarrow> digit_char d = CHR ''0'' \<longleftrightarrow> d = 0"
proof
  assume d: "d < 10" and "digit_char d = CHR ''0''"
  then have "digit_value (digit_char d) = digit_value (CHR ''0'')" by simp
  with d show "d = 0" by (simp add: digit_value_digit_char) (simp add: digit_value_def)
next
  assume "d = 0"
  then have "digit_char d = char_of (48 :: nat)" by (simp add: digit_char_def)
  also have "\<dots> = CHR ''0''" by code_simp
  finally show "digit_char d = CHR ''0''" .
qed

lemma str_nat_digits: "c \<in> set (str_nat n) \<Longrightarrow> is_digit c"
proof (induction n arbitrary: c rule: str_nat.induct)
  case (1 n)
  show ?case
  proof (cases "n < 10")
    case True
    with "1.prems" show ?thesis by (simp add: str_nat.simps [of n] is_digit_digit_char)
  next
    case False
    with "1.prems" "1.IH" show ?thesis
      by (auto simp: str_nat.simps [of n] is_digit_digit_char)
  qed
qed

lemma str_nat_not_Nil: "str_nat n \<noteq> []"
  by (simp add: str_nat.simps [of n])

lemma digits_value_snoc: "digits_value (ds @ [c]) = digits_value ds * 10 + digit_value c"
  by (simp add: digits_value_def)

lemma digits_value_str_nat: "digits_value (str_nat n) = n"
proof (induction n rule: str_nat.induct)
  case (1 n)
  show ?case
  proof (cases "n < 10")
    case True
    then show ?thesis
      by (simp add: str_nat.simps [of n] digits_value_def digit_value_digit_char)
  next
    case False
    with "1.IH" show ?thesis
      by (simp add: str_nat.simps [of n] digits_value_snoc digit_value_digit_char)
  qed
qed

lemma hd_str_nat: "0 < n \<Longrightarrow> hd (str_nat n) \<noteq> CHR ''0''"
proof (induction n rule: str_nat.induct)
  case (1 n)
  show ?case
  proof (cases "n < 10")
    case True
    with "1.prems" show ?thesis
      by (simp add: str_nat.simps [of n] digit_char_eq_zero)
  next
    case False
    then have "0 < n div 10" by simp
    with False "1.IH" show ?thesis
      by (simp add: str_nat.simps [of n] str_nat_not_Nil)
  qed
qed

lemma str_nat_leading_zero: "hd (str_nat n) = CHR ''0'' \<Longrightarrow> length (str_nat n) = 1"
proof (cases "n = 0")
  case True
  then show ?thesis by (simp add: str_nat.simps [of 0])
next
  case False
  assume "hd (str_nat n) = CHR ''0''"
  with False hd_str_nat [of n] show ?thesis by simp
qed

lemma takeWhile_digits_ahead: "no_digit_ahead rest \<Longrightarrow> takeWhile is_digit rest = []"
  by (cases rest) (simp_all add: no_digit_ahead_def)

lemma dropWhile_digits_ahead: "no_digit_ahead rest \<Longrightarrow> dropWhile is_digit rest = rest"
  by (cases rest) (simp_all add: no_digit_ahead_def)

lemma lex_nat_str_nat:
  assumes "no_digit_ahead rest"
  shows "lex_nat (str_nat n @ rest) = Some (n, rest)"
proof -
  have t: "takeWhile is_digit (str_nat n @ rest) = str_nat n"
    using assms by (simp add: str_nat_digits takeWhile_digits_ahead)
  have d: "dropWhile is_digit (str_nat n @ rest) = rest"
    using assms by (simp add: str_nat_digits dropWhile_digits_ahead)
  have z: "\<not> (hd (str_nat n) = CHR ''0'' \<and> 1 < length (str_nat n))"
    using str_nat_leading_zero [of n] by auto
  show ?thesis
    unfolding lex_nat_def Let_def t d using z
    by (simp add: str_nat_not_Nil digits_value_str_nat)
qed


subsection \<open>A dumped object is read back unchanged\<close>

lemma lex_dumps_str: "json_lex (dumps_str s @ rest) = map_option ((#) (TString s)) (json_lex rest)"
  by (simp add: dumps_str_def json_space_def loads_chars_dumps)

lemma digit_not_punct:
  assumes "is_digit c"
  shows "\<not> json_space c" "c \<noteq> CHR ''{''" "c \<noteq> CHR ''}''" "c \<noteq> CHR '':''" "c \<noteq> CHR '',''"
    "c \<noteq> CHR 0x22" "c \<noteq> CHR ''-''"
  using assms by (auto simp: is_digit_def json_space_def)

lemma lex_str_nat:
  assumes "no_digit_ahead rest"
  shows "json_lex (str_nat n @ rest) = map_option ((#) (TInt (int n))) (json_lex rest)"
proof -
  obtain c cs where cs: "str_nat n = c # cs"
    using str_nat_not_Nil [of n] by (cases "str_nat n") auto
  then have "c \<in> set (str_nat n)" by simp
  then have dig: "is_digit c" by (rule str_nat_digits)
  have "lex_nat (c # cs @ rest) = Some (n, rest)"
    using lex_nat_str_nat [OF assms, of n] by (simp add: cs)
  then show ?thesis
    by (simp add: cs dig digit_not_punct [OF dig])
qed

lemma lex_str_int:
  assumes "no_digit_ahead rest"
  shows "json_lex (str_int i @ rest) = map_option ((#) (TInt i)) (json_lex rest)"
proof (cases "i < 0")
  case True
  have "\<not> json_space (CHR ''-'')" by (simp add: json_space_def)
  with True show ?thesis
    by (simp add: str_int_def lex_nat_str_nat [OF assms])
next
  case False
  then show ?thesis
    by (simp add: str_int_def lex_str_nat [OF assms])
qed

lemma lex_dumps_val:
  assumes "no_digit_ahead rest"
  shows "json_lex (dumps_val v @ rest) = map_option ((#) (tok v)) (json_lex rest)"
proof (cases v)
  case (JStr s)
  then show ?thesis by (simp add: lex_dumps_str)
next
  case (JInt i)
  then show ?thesis by (simp add: lex_str_int [OF assms])
next
  case (JBool b)
  then show ?thesis by (simp add: json_space_def is_digit_def)
qed

lemma lex_dumps_item:
  assumes "no_digit_ahead rest"
  shows "json_lex (dumps_item kv @ rest)
         = map_option (\<lambda>ts. TString (fst kv) # TColon # tok (snd kv) # ts) (json_lex rest)"
proof -
  have "json_lex (dumps_item kv @ rest)
        = map_option ((#) (TString (fst kv))) (json_lex ('': '' @ dumps_val (snd kv) @ rest))"
    by (simp add: dumps_item_def lex_dumps_str)
  also have "json_lex ('': '' @ dumps_val (snd kv) @ rest)
        = map_option ((#) TColon) (json_lex (dumps_val (snd kv) @ rest))"
    by (simp add: json_space_def)
  finally show ?thesis
    by (simp add: lex_dumps_val [OF assms] option.map_comp comp_def)
qed

lemma lex_members:
  "json_lex (join_items (map dumps_item d) @ ''}'') = Some (members_tokens d)"
proof (induction d rule: members_tokens.induct)
  case 1
  show ?case by (simp add: json_space_def)
next
  case (2 kv)
  have "no_digit_ahead ''}''" by (simp add: no_digit_ahead_def is_digit_def)
  then show ?case by (simp add: lex_dumps_item json_space_def)
next
  case (3 kv kv' kvs)
  have "no_digit_ahead ('', '' @ join_items (map dumps_item (kv' # kvs)) @ ''}'')"
    by (simp add: no_digit_ahead_def is_digit_def)
  then have "json_lex (dumps_item kv @ '', '' @ join_items (map dumps_item (kv' # kvs)) @ ''}'')
       = map_option (\<lambda>ts. TString (fst kv) # TColon # tok (snd kv) # ts)
           (json_lex ('', '' @ join_items (map dumps_item (kv' # kvs)) @ ''}''))"
    by (rule lex_dumps_item)
  also have "json_lex ('', '' @ join_items (map dumps_item (kv' # kvs)) @ ''}'')
       = map_option ((#) TComma) (json_lex (join_items (map dumps_item (kv' # kvs)) @ ''}''))"
    by (simp add: json_space_def)
  finally show ?case using "3.IH" by simp
qed

lemma parse_value_tok: "parse_value (tok v) = Some v"
  by (cases v) auto

lemma parse_members_tokens: "d \<noteq> [] \<Longrightarrow> parse_members (members_tokens d) = Some d"
  by (induction d rule: members_tokens.induct) (simp_all add: parse_value_tok)

lemma members_tokens_not_end: "d \<noteq> [] \<Longrightarrow> members_tokens d \<noteq> [TRBrace]"
  by (induction d rule: members_tokens.induct) simp_all

lemma json_loads_dumps: "json_loads (json_dumps d) = Some d"
proof -
  have "json_lex (json_dumps d) = Some (TLBrace # members_tokens d)"
    by (simp add: json_dumps_def json_space_def lex_members)
  then show ?thesis
    by (cases "d = []") (simp_all add: json_loads_def parse_members_tokens members_tokens_not_end)
qed


subsection \<open>A dumped object is ASCII, so its encoding is the text itself\<close>

lemma ascii_Nil: "ascii []"
  by (simp add: ascii_def)

lemma ascii_Cons: "ascii (c # s) \<longleftrightarrow> (of_char c :: nat) < 128 \<and> ascii s"
  by (simp add: ascii_def)

lemma ascii_append: "ascii (s @ t) \<longleftrightarrow> ascii s \<and> ascii t"
  by (simp add: ascii_def)

lemma ascii_concat: "list_all ascii ss \<Longrightarrow> ascii (concat ss)"
  by (induction ss) (simp_all add: ascii_Nil ascii_append)

lemma str_encode_ascii: "ascii s \<Longrightarrow> str_encode s = s"
  by (induction s) (simp_all add: str_encode_def encode_char_def ascii_Cons)

lemma utf8_decode_ascii: "ascii s \<Longrightarrow> utf8_decode s = Some (map of_char s)"
  by (induction s) (simp_all add: ascii_Cons)

lemma ascii_hex_char: "d < 16 \<Longrightarrow> (of_char (hex_char d) :: nat) < 128"
  by (simp add: hex_char_def)

lemma ascii_escape_char: "ascii (escape_char c)"
proof -
  have d: "(of_char c :: nat) div 16 < 16"
    by (rule less_mult_imp_div_less) simp
  have m: "(of_char c :: nat) mod 16 < 16" by simp
  show ?thesis
    by (simp add: escape_char_def ascii_Cons ascii_Nil ascii_hex_char [OF d] ascii_hex_char [OF m])
qed

lemma ascii_dumps_str: "ascii (dumps_str s)"
  by (simp add: dumps_str_def ascii_Cons ascii_append ascii_Nil ascii_concat
      list_all_iff ascii_escape_char)

lemma ascii_str_nat: "ascii (str_nat n)"
proof -
  have "(of_char c :: nat) < 128" if "c \<in> set (str_nat n)" for c
    using str_nat_digits [OF that] by (simp add: is_digit_def)
  then show ?thesis by (simp add: ascii_def list_all_iff)
qed

lemma ascii_dumps_val: "ascii (dumps_val v)"
  by (cases v) (simp_all add: ascii_dumps_str str_int_def ascii_str_nat ascii_Cons ascii_Nil)

lemma ascii_dumps_item: "ascii (dumps_item kv)"
  by (simp add: dumps_item_def ascii_append ascii_dumps_str ascii_dumps_val ascii_Cons ascii_Nil)

lemma ascii_join_items: "list_all ascii xs \<Longrightarrow> ascii (join_items xs)"
  by (induction xs rule: join_items.induct) (simp_all add: ascii_Nil ascii_append ascii_Cons)

lemma ascii_json_dumps: "ascii (json_dumps d)"
  by (simp add: json_dumps_def ascii_Cons ascii_append ascii_Nil ascii_join_items
      list_all_iff ascii_dumps_item)

lemma body_json_dumps: "body_json (str_encode (json_dumps d)) = Some d"
proof -
  have a: "ascii (json_dumps d)" by (rule ascii_json_dumps)
  have "list_all (\<lambda>n. n < 256) (map (of_char :: char \<Rightarrow> nat) (json_dumps d))"
    by (simp add: list_all_iff)
  then show ?thesis
    by (simp add: body_json_def str_encode_ascii [OF a] utf8_decode_ascii [OF a]
        comp_def json_loads_dumps)
qed

subsection \<open>\<open>int\<close> accepts the integer literals, and nothing else\<close>

lemma lit_trail_dropWhile: "lit_trail r \<longleftrightarrow> dropWhile py_isspace r = []"
  by (induction r) auto

lemma digit_not_underscore: "is_digit c \<Longrightarrow> \<not> is_underscore c"
  by (auto simp: is_digit_def is_underscore_def)

lemma lit_digits_scan:
  "lit_digits u \<longleftrightarrow>
     scan_digits False (takeWhile digit_or_underscore u)
     \<and> dropWhile py_isspace (dropWhile digit_or_underscore u) = []"
proof (induction u rule: lit_digits.induct)
  case 1
  show ?case by simp
next
  case (2 c cs)
  consider (digit) "is_digit c" | (us) "\<not> is_digit c" "is_underscore c"
    | (other) "\<not> is_digit c" "\<not> is_underscore c" by blast
  then show ?case
  proof cases
    case digit
    with "2.IH"(1) show ?thesis
      by (simp add: digit_or_underscore_def digit_not_underscore)
  next
    case us
    show ?thesis
    proof (cases cs)
      case Nil
      with us show ?thesis by (simp add: digit_or_underscore_def)
    next
      case (Cons d ds)
      consider (d1) "is_digit d" | (d2) "\<not> is_digit d" "is_underscore d"
        | (d3) "\<not> is_digit d" "\<not> is_underscore d" by blast
      then show ?thesis
      proof cases
        case d1
        with us Cons "2.IH"(2) [OF us Cons] show ?thesis
          by (simp add: digit_or_underscore_def digit_not_underscore)
      next
        case d2
        with us Cons show ?thesis by (simp add: digit_or_underscore_def)
      next
        case d3
        with us Cons show ?thesis by (simp add: digit_or_underscore_def)
      qed
    qed
  next
    case other
    then show ?thesis
      using lit_trail_dropWhile [of "c # cs"] by (simp add: digit_or_underscore_def)
  qed
qed

lemma lit_number_ok: "lit_number t \<longleftrightarrow> int_ok t"
proof (cases t)
  case Nil
  then show ?thesis by (simp add: int_ok_def)
next
  case (Cons c cs)
  consider (digit) "is_digit c" | (us) "\<not> is_digit c" "is_underscore c"
    | (other) "\<not> is_digit c" "\<not> is_underscore c" by blast
  then show ?thesis
  proof cases
    case digit
    with Cons show ?thesis
      by (simp add: int_ok_def digit_or_underscore_def digit_not_underscore lit_digits_scan)
  next
    case us
    with Cons show ?thesis by (simp add: int_ok_def digit_or_underscore_def)
  next
    case other
    with Cons show ?thesis by (simp add: int_ok_def digit_or_underscore_def)
  qed
qed

lemma lit_signed_strip: "lit_signed u \<longleftrightarrow> lit_number (snd (strip_sign u))"
  by (cases u) auto

lemma int_literal_strip: "int_literal s \<longleftrightarrow> lit_signed (dropWhile py_isspace s)"
  by (induction s) auto

lemma py_int_str_ok:
  "py_int_str s =
     (if int_ok (snd (strip_sign (dropWhile py_isspace s)))
         \<and> length (filter is_digit
               (takeWhile digit_or_underscore (snd (strip_sign (dropWhile py_isspace s)))))
             \<le> int_max_str_digits
      then Inr ((if fst (strip_sign (dropWhile py_isspace s)) then - 1 else 1)
                * int (digits_value (filter is_digit
                    (takeWhile digit_or_underscore (snd (strip_sign (dropWhile py_isspace s)))))))
      else Inl ValueError)"
  by (auto simp: py_int_str_def int_ok_def Let_def split: prod.splits)

lemma py_int_str_not_literal: "\<not> int_literal s \<Longrightarrow> py_int_str s = Inl ValueError"
  by (simp add: py_int_str_ok int_literal_strip lit_signed_strip lit_number_ok)

text \<open>
  The digits of a literal are those of its body: the whitespace and the sign hold none.
\<close>

lemma filter_digit_spaces: "dropWhile py_isspace r = [] \<Longrightarrow> filter is_digit r = []"
proof (induction r)
  case Nil
  show ?case by simp
next
  case (Cons c r)
  then have "py_isspace c" and "dropWhile py_isspace r = []"
    by (simp_all split: if_splits)
  with Cons.IH show ?case by (auto simp: py_isspace_def is_digit_def)
qed

lemma filter_digit_dropWhile_space:
  "filter is_digit (dropWhile py_isspace s) = filter is_digit s"
proof (induction s)
  case Nil
  show ?case by simp
next
  case (Cons c s)
  have "\<not> is_digit c" if "py_isspace c"
    using that by (auto simp: py_isspace_def is_digit_def)
  with Cons show ?case by simp
qed

lemma filter_digit_strip_sign: "filter is_digit (snd (strip_sign u)) = filter is_digit u"
  by (cases u) (auto simp: is_digit_def)

lemma filter_digit_body:
  assumes "dropWhile py_isspace (dropWhile digit_or_underscore t) = []"
  shows "filter is_digit (takeWhile digit_or_underscore t) = filter is_digit t"
proof -
  have "filter is_digit t =
      filter is_digit (takeWhile digit_or_underscore t)
      @ filter is_digit (dropWhile digit_or_underscore t)"
    by (metis filter_append takeWhile_dropWhile_id)
  with filter_digit_spaces [OF assms] show ?thesis by simp
qed

lemma py_int_str_literal:
  "py_int_str s = Inl ValueError \<longleftrightarrow>
     \<not> int_literal s \<or> int_max_str_digits < length (filter is_digit s)"
proof (cases "int_literal s")
  case False
  then show ?thesis by (simp add: py_int_str_not_literal)
next
  case True
  let ?t = "snd (strip_sign (dropWhile py_isspace s))"
  from True have ok: "int_ok ?t"
    by (simp add: int_literal_strip lit_signed_strip lit_number_ok)
  then have "dropWhile py_isspace (dropWhile digit_or_underscore ?t) = []"
    by (simp add: int_ok_def)
  then have "filter is_digit (takeWhile digit_or_underscore ?t) = filter is_digit s"
    by (simp add: filter_digit_body filter_digit_strip_sign filter_digit_dropWhile_space)
  with True ok show ?thesis by (auto simp: py_int_str_ok)
qed

lemma str_nat_all_digits: "list_all is_digit (str_nat n)"
  by (simp add: list_all_iff str_nat_digits)

lemma scan_digits_all_digits: "list_all is_digit ds \<Longrightarrow> scan_digits False ds"
  by (induction ds) (simp_all add: digit_not_underscore)

lemma int_ok_str_nat: "int_ok (str_nat n)"
proof -
  have t: "takeWhile digit_or_underscore (str_nat n) = str_nat n"
    by (simp add: takeWhile_eq_all_conv digit_or_underscore_def str_nat_digits)
  have d: "dropWhile digit_or_underscore (str_nat n) = []"
    by (simp add: digit_or_underscore_def str_nat_digits)
  have "hd (str_nat n) \<in> set (str_nat n)" by (simp add: str_nat_not_Nil)
  then have h: "\<not> is_underscore (hd (str_nat n))"
    using str_nat_digits digit_not_underscore by blast
  show ?thesis
    by (simp add: int_ok_def t d h str_nat_not_Nil scan_digits_all_digits str_nat_all_digits)
qed

lemma length_str_nat: "n < 10 ^ Suc k \<Longrightarrow> length (str_nat n) \<le> Suc k"
proof (induction k arbitrary: n)
  case 0
  then show ?case by (simp add: str_nat.simps [of n])
next
  case (Suc k)
  show ?case
  proof (cases "n < 10")
    case True
    then show ?thesis by (simp add: str_nat.simps [of n])
  next
    case False
    from Suc.prems have "n div 10 < 10 ^ Suc k" by (simp add: less_mult_imp_div_less)
    from Suc.IH [OF this] False show ?thesis by (simp add: str_nat.simps [of n])
  qed
qed

lemma py_int_str_str_nat:
  assumes "length (str_nat n) \<le> int_max_str_digits"
  shows "py_int_str (str_nat n) = Inr (int n)"
proof -
  obtain c cs where cs: "str_nat n = c # cs"
    using str_nat_not_Nil [of n] by (cases "str_nat n") auto
  then have "c \<in> set (str_nat n)" by simp
  then have dig: "is_digit c" by (rule str_nat_digits)
  then have ns: "\<not> py_isspace c" "c \<noteq> CHR ''-''" "c \<noteq> CHR ''+''"
    by (auto simp: is_digit_def py_isspace_def)
  have s: "strip_sign (dropWhile py_isspace (str_nat n)) = (False, str_nat n)"
    by (simp add: cs ns)
  have t: "takeWhile digit_or_underscore (str_nat n) = str_nat n"
    by (simp add: takeWhile_eq_all_conv digit_or_underscore_def str_nat_digits)
  have f: "filter is_digit (str_nat n) = str_nat n"
    by (simp add: filter_id_conv str_nat_digits)
  show ?thesis
    using assms by (simp add: py_int_str_ok s int_ok_str_nat t f digits_value_str_nat)
qed

text \<open>A port number written in decimal is read back as itself.\<close>

lemma py_int_str_port:
  assumes "0 \<le> p" "p \<le> 65535"
  shows "py_int_str (str_int p) = Inr p"
proof -
  from assms have "nat p < 10 ^ Suc 4" by simp
  then have "length (str_nat (nat p)) \<le> Suc 4" by (rule length_str_nat)
  then have "length (str_nat (nat p)) \<le> int_max_str_digits"
    by (simp add: int_max_str_digits_def)
  from py_int_str_str_nat [OF this] assms(1) show ?thesis by (simp add: str_int_def)
qed

subsection \<open>Only the empty byte string decodes to the empty text\<close>

lemma utf8_decode_Nil: "utf8_decode bs = Some [] \<longleftrightarrow> bs = []"
proof (cases bs)
  case Nil
  then show ?thesis by simp
next
  case (Cons b0 r)
  have "utf8_decode (b0 # r) \<noteq> Some []"
    by (auto simp: Let_def split: if_splits list.splits)
  with Cons show ?thesis by simp
qed

section \<open>Properties of the handler\<close>

subsection \<open>What the two methods compute\<close>

lemma do_GET_eval:
  "do_GET PORT (Handler c) =
     (if socket_writable c
      then (Return (),
            (Handler c)\<lparr>wfile := written (request_line_version c) (ok_head c)
               (str_encode (json_dumps (get_body PORT (collapse_slashes (request_target c)))))\<rparr>)
      else (Raise BrokenPipeError,
            (Handler c)\<lparr>headers_buffer := unsent (request_line_version c) (ok_head c)\<rparr>))"
  by (simp add: do_GET_def and_then_def send_response_def send_response_only_def send_header_def
      end_headers_def flush_headers_def wfile_write_def Handler_def ok_head_def get_body_def
      written_def unsent_def)

lemma lower_names:
  "py_lower ''Content-Type'' = ''content-type''"
  "py_lower ''Content-type'' = ''content-type''"
  "py_lower ''Content-Length'' = ''content-length''"
  "py_lower ''Server'' = ''server''"
  "py_lower ''Date'' = ''date''"
  by code_simp+

lemma header_of_ok_head: "header_of (ok_head c) ''Content-Type'' = Some ''application/json''"
  by (simp add: ok_head_def lower_names)

lemma status_of_ok_head: "status_of (ok_head c) = Some 200"
  by (simp add: ok_head_def)

lemma line_codes_ok_head: "line_codes (ok_head c) = [200]"
  by (simp add: ok_head_def)

lemma ok_lines_Handler:
  assumes "version_string self = server_version c" "date_time_string self = server_date c"
  shows "ok_lines self = ok_head c"
  using assms by (simp add: ok_lines_def ok_head_def)

text \<open>The response phase, entered with nothing buffered and nothing written.\<close>

lemma respond_post_fresh:
  assumes "wfile self = []" "headers_buffer self = []"
  shows "respond_post PORT body self =
     (if wfile_open self
      then (Return (),
            self\<lparr>wfile := written (request_version self) (ok_lines self)
               (str_encode (json_dumps (post_body PORT (path self) (body \<noteq> []))))\<rparr>)
      else (Raise BrokenPipeError,
            self\<lparr>headers_buffer := unsent (request_version self) (ok_lines self)\<rparr>))"
  using assms
  by (simp add: respond_post_def and_then_def send_response_def send_response_only_def
      send_header_def end_headers_def flush_headers_def wfile_write_def ok_lines_def
      written_def unsent_def)

lemma and_then_assoc:
  "and_then (and_then m f) g = and_then m (\<lambda>x. and_then (f x) g)"
  by (auto simp: and_then_def fun_eq_iff split: prod.splits result.splits)

lemma do_POST_respond: "do_POST PORT = and_then read_body (respond_post PORT)"
proof -
  have b: "(if b then True else False) = b" for b :: bool by simp
  show ?thesis
    unfolding do_POST_def respond_post_def post_body_def read_body_def and_then_assoc b ..
qed

lemma read_body_invalid:
  assumes "content_length_header (Handler c) = Inl e"
  shows "read_body (Handler c) = (Raise e, Handler c)"
  using assms by (simp add: read_body_def and_then_def lift_def)

lemma read_body_zero:
  assumes "content_length_header (Handler c) = Inr 0"
  shows "read_body (Handler c) = (Return [], Handler c)"
  using assms by (simp add: read_body_def and_then_def lift_def)

lemma read_body_read:
  assumes "content_length_header (Handler c) = Inr n" "n \<noteq> 0"
  shows "read_body (Handler c) =
     (case rfile_read n (Handler c) of
        (Return bs, self) \<Rightarrow>
          (case utf8_decode bs of
             None \<Rightarrow> (Raise UnicodeDecodeError, self)
           | Some body \<Rightarrow> (Return body, self))
      | (Raise e, self) \<Rightarrow> (Raise e, self)
      | (Block, self) \<Rightarrow> (Block, self))"
  using assms
  by (simp add: read_body_def and_then_def lift_def bytes_decode_def
      split: prod.splits result.splits option.splits)

lemma rfile_read_frame:
  assumes "rfile_read n self = (r, self')"
  shows "wfile self' = wfile self" "headers_buffer self' = headers_buffer self"
    "wfile_open self' = wfile_open self" "path self' = path self"
    "request_version self' = request_version self"
    "version_string self' = version_string self" "date_time_string self' = date_time_string self"
    "rfile_reads self' = rfile_reads self @ [n]"
  using assms by (auto simp: rfile_read_def Let_def split: if_splits)

lemma rfile_read_enough:
  assumes "0 \<le> n" "n \<le> max_bytes_size" "nat n \<le> alloc_limit self"
    and "nat n \<le> length (rfile self) \<or> rfile_eof self"
  shows "rfile_read n self =
     (Return (take (nat n) (rfile self)),
      self\<lparr>rfile_reads := rfile_reads self @ [n], rfile := drop (nat n) (rfile self)\<rparr>)"
  using assms by (auto simp: rfile_read_def Let_def)

text \<open>
  The reading of the body leaves the handler with nothing buffered and nothing written,
  whatever its outcome.
\<close>

lemma read_body_frame:
  assumes "read_body (Handler c) = (r, self)"
  shows "wfile self = []" "headers_buffer self = []" "wfile_open self = socket_writable c"
    "path self = collapse_slashes (request_target c)"
    "request_version self = request_line_version c"
    "version_string self = server_version c" "date_time_string self = server_date c"
proof -
  have h: "wfile (Handler c) = []" "headers_buffer (Handler c) = []"
    "wfile_open (Handler c) = socket_writable c"
    "path (Handler c) = collapse_slashes (request_target c)"
    "request_version (Handler c) = request_line_version c"
    "version_string (Handler c) = server_version c"
    "date_time_string (Handler c) = server_date c"
    by (simp_all add: Handler_def)
  have "wfile self = [] \<and> headers_buffer self = [] \<and> wfile_open self = socket_writable c
      \<and> path self = collapse_slashes (request_target c)
      \<and> request_version self = request_line_version c
      \<and> version_string self = server_version c \<and> date_time_string self = server_date c"
  proof (cases "content_length_header (Handler c)")
    case (Inl e)
    with assms h show ?thesis by (simp add: read_body_invalid)
  next
    case (Inr n)
    show ?thesis
    proof (cases "n = 0")
      case True
      with Inr assms h show ?thesis by (simp add: read_body_zero)
    next
      case False
      obtain r' self' where rd: "rfile_read n (Handler c) = (r', self')"
        by (cases "rfile_read n (Handler c)")
      note fr = rfile_read_frame [OF rd]
      from assms have "self = self'"
        by (simp add: read_body_read [OF Inr False] rd split: result.splits option.splits)
      with fr h show ?thesis by simp
    qed
  qed
  then show "wfile self = []" "headers_buffer self = []" "wfile_open self = socket_writable c"
    "path self = collapse_slashes (request_target c)"
    "request_version self = request_line_version c"
    "version_string self = server_version c" "date_time_string self = server_date c"
    by simp_all
qed

text \<open>
  Every outcome of \<open>do_POST\<close>: the reading of the body fails or never ends, and nothing
  is buffered or written; or it returns a body, and the response phase runs.
\<close>

lemma do_POST_outcome:
  obtains (silent) "\<forall>body. fst (read_body (Handler c)) \<noteq> Return body"
      "fst (do_POST PORT (Handler c)) \<noteq> Return ()"
      "wfile (snd (do_POST PORT (Handler c))) = []"
      "headers_buffer (snd (do_POST PORT (Handler c))) = []"
  | (respond) body self where "read_body (Handler c) = (Return body, self)"
      "do_POST PORT (Handler c) = respond_post PORT body self"
      "wfile self = []" "headers_buffer self = []"
      "path self = collapse_slashes (request_target c)"
      "request_version self = request_line_version c"
      "wfile_open self = socket_writable c" "ok_lines self = ok_head c"
proof -
  obtain r self where rb: "read_body (Handler c) = (r, self)"
    by (cases "read_body (Handler c)")
  note fr = read_body_frame [OF rb]
  show ?thesis
  proof (cases r)
    case (Return body)
    with rb have "do_POST PORT (Handler c) = respond_post PORT body self"
      by (simp add: do_POST_respond and_then_def)
    with rb Return fr show ?thesis
      by (intro respond [of body self]) (simp_all add: ok_lines_Handler)
  next
    case (Raise e)
    with rb have "do_POST PORT (Handler c) = (Raise e, self)"
      by (simp add: do_POST_respond and_then_def)
    with rb Raise fr show ?thesis by (intro silent) simp_all
  next
    case Block
    with rb have "do_POST PORT (Handler c) = (Block, self)"
      by (simp add: do_POST_respond and_then_def)
    with rb Block fr show ?thesis by (intro silent) simp_all
  qed
qed

lemma read_body_well_formed:
  assumes cl: "content_length_header (Handler c) = Inr n"
    and n: "0 \<le> n" "n \<le> max_bytes_size" "nat n \<le> memory_limit c"
      "nat n \<le> length (request_body c) \<or> client_closes c"
    and dec: "utf8_decode (take (nat n) (request_body c)) = Some body"
  shows "read_body (Handler c) =
     (Return body,
      (Handler c)\<lparr>rfile_reads := (if n = 0 then [] else [n]),
                   rfile := drop (nat n) (request_body c)\<rparr>)"
proof (cases "n = 0")
  case True
  with dec have "body = []" by simp
  with True cl show ?thesis by (simp add: read_body_zero) (simp add: Handler_def)
next
  case False
  have "rfile_read n (Handler c) =
     (Return (take (nat n) (rfile (Handler c))),
      (Handler c)\<lparr>rfile_reads := rfile_reads (Handler c) @ [n],
                   rfile := drop (nat n) (rfile (Handler c))\<rparr>)"
    using n by (intro rfile_read_enough) (simp_all add: Handler_def)
  then have rd: "rfile_read n (Handler c) =
     (Return (take (nat n) (request_body c)),
      (Handler c)\<lparr>rfile_reads := [n], rfile := drop (nat n) (request_body c)\<rparr>)"
    by (simp add: Handler_def)
  from False show ?thesis
    by (simp add: read_body_read [OF cl False] rd dec)
qed

lemma do_POST_well_formed:
  assumes cl: "content_length_header (Handler c) = Inr n"
    and n: "0 \<le> n" "n \<le> max_bytes_size" "nat n \<le> memory_limit c"
      "nat n \<le> length (request_body c) \<or> client_closes c"
    and dec: "utf8_decode (take (nat n) (request_body c)) = Some body"
    and w: "socket_writable c"
  shows "fst (do_POST PORT (Handler c)) = Return ()"
    and "rfile (snd (do_POST PORT (Handler c))) = drop (nat n) (request_body c)"
    and "rfile_reads (snd (do_POST PORT (Handler c))) = (if n = 0 then [] else [n])"
    and "wfile (snd (do_POST PORT (Handler c))) =
      written (request_line_version c) (ok_head c)
        (str_encode (json_dumps
           (post_body PORT (collapse_slashes (request_target c)) (body \<noteq> []))))"
proof -
  let ?self = "(Handler c)\<lparr>rfile_reads := (if n = 0 then [] else [n]),
                   rfile := drop (nat n) (request_body c)\<rparr>"
  have rb: "read_body (Handler c) = (Return body, ?self)"
    using cl n dec by (rule read_body_well_formed)
  have fr: "wfile ?self = []" "headers_buffer ?self = []" by (simp_all add: Handler_def)
  have e: "do_POST PORT (Handler c) = respond_post PORT body ?self"
    by (simp add: do_POST_respond and_then_def rb)
  have o: "wfile_open ?self" "request_version ?self = request_line_version c"
    "path ?self = collapse_slashes (request_target c)" "ok_lines ?self = ok_head c"
    using w by (simp_all add: Handler_def ok_lines_def ok_head_def)
  show "fst (do_POST PORT (Handler c)) = Return ()"
    unfolding e respond_post_fresh [OF fr] using o(1) by simp
  show "rfile (snd (do_POST PORT (Handler c))) = drop (nat n) (request_body c)"
    unfolding e respond_post_fresh [OF fr] using o(1) by simp
  show "rfile_reads (snd (do_POST PORT (Handler c))) = (if n = 0 then [] else [n])"
    unfolding e respond_post_fresh [OF fr] using o(1) by simp
  show "wfile (snd (do_POST PORT (Handler c))) =
      written (request_line_version c) (ok_head c)
        (str_encode (json_dumps
           (post_body PORT (collapse_slashes (request_target c)) (body \<noteq> []))))"
    unfolding e respond_post_fresh [OF fr] using o(1) by (simp add: o(2,3,4))
qed

lemma headers_get_absent:
  "header_absent hs name \<Longrightarrow> headers_get hs name failobj = failobj"
  by (induction hs) (auto simp: header_absent_def)

lemma content_length_absent:
  assumes "header_absent (request_headers c) ''Content-Length''"
  shows "content_length_header (Handler c) = Inr 0"
  using assms by (simp add: content_length_header_def Handler_def headers_get_absent)

lemma content_length_invalid:
  assumes "headers_get (request_headers c) ''Content-Length'' (PyInt 0) = PyStr v"
    and "\<not> int_literal v"
  shows "content_length_header (Handler c) = Inl ValueError"
  using assms by (simp add: content_length_header_def Handler_def py_int_str_not_literal)

subsection \<open>The status and the fields of a response\<close>

lemma response_body_written: "wfile self = written v ls b \<Longrightarrow> response_body self = b"
  by (simp add: response_body_def written_def)

lemma response_json_written:
  assumes "wfile self = written v ls (str_encode (json_dumps d))"
  shows "response_json self = Some d"
  using assms by (simp add: response_json_def response_body_written body_json_dumps)

lemma response_status_written:
  assumes "wfile self = written v ls b"
  shows "response_status self = (if v = ''HTTP/0.9'' then None else status_of ls)"
  using assms by (simp add: response_status_def response_head_def written_def)

lemma response_header_written:
  assumes "wfile self = written v ls b"
  shows "response_header self name = (if v = ''HTTP/0.9'' then None else header_of ls name)"
  using assms by (simp add: response_header_def response_head_def written_def)

lemma status_codes_written:
  assumes "wfile self = written v (ok_head c) b" "headers_buffer self = []"
  shows "list_all (\<lambda>code. code = 200) (status_codes self)"
  using assms by (simp add: status_codes_def written_def line_codes_ok_head)

lemma status_codes_unsent:
  assumes "wfile self = []" "headers_buffer self = unsent v (ok_head c)"
  shows "list_all (\<lambda>code. code = 200) (status_codes self)"
  using assms by (simp add: status_codes_def unsent_def line_codes_ok_head)

lemma map_of_get_body:
  "map_of (get_body PORT p) ''port'' = Some (JInt PORT)"
  "map_of (get_body PORT p) ''path'' = Some (JStr p)"
  by (simp_all add: get_body_def)

lemma map_of_post_body:
  "map_of (post_body PORT p b) ''port'' = Some (JInt PORT)"
  "map_of (post_body PORT p b) ''body_received'' = Some (JBool b)"
  by (simp_all add: post_body_def)

lemma do_GET_written:
  assumes "socket_writable c"
  shows "fst (do_GET PORT (Handler c)) = Return ()"
    and "wfile (snd (do_GET PORT (Handler c))) =
      written (request_line_version c) (ok_head c)
        (str_encode (json_dumps (get_body PORT (collapse_slashes (request_target c)))))"
    and "headers_buffer (snd (do_GET PORT (Handler c))) = []"
  using assms by (simp_all add: do_GET_eval) (simp add: Handler_def)

lemma do_GET_codes: "list_all (\<lambda>code. code = 200) (status_codes (snd (do_GET PORT (Handler c))))"
proof (cases "socket_writable c")
  case True
  from do_GET_written(2,3) [OF True] show ?thesis by (rule status_codes_written)
next
  case False
  then have "wfile (snd (do_GET PORT (Handler c))) = []"
    and "headers_buffer (snd (do_GET PORT (Handler c)))
         = unsent (request_line_version c) (ok_head c)"
    by (simp_all add: do_GET_eval) (simp add: Handler_def)
  then show ?thesis by (rule status_codes_unsent)
qed

text \<open>A \<open>do_POST\<close> that returns has written the response of some body.\<close>

lemma do_POST_returned:
  assumes "fst (do_POST PORT (Handler c)) = Return ()"
  obtains body where "fst (read_body (Handler c)) = Return body" "socket_writable c"
    "wfile (snd (do_POST PORT (Handler c))) =
      written (request_line_version c) (ok_head c)
        (str_encode (json_dumps
           (post_body PORT (collapse_slashes (request_target c)) (body \<noteq> []))))"
    "headers_buffer (snd (do_POST PORT (Handler c))) = []"
proof (cases rule: do_POST_outcome [of c PORT])
  case silent
  with assms show ?thesis by simp
next
  case (respond body self)
  note f = respond_post_fresh [OF respond(3,4), of PORT body]
  from assms have w: "wfile_open self" by (simp add: respond(2) f split: if_splits)
  show ?thesis
  proof (rule that [of body])
    show "fst (read_body (Handler c)) = Return body" by (simp add: respond(1))
    show "socket_writable c" using w respond(7) by simp
    show "wfile (snd (do_POST PORT (Handler c))) =
      written (request_line_version c) (ok_head c)
        (str_encode (json_dumps
           (post_body PORT (collapse_slashes (request_target c)) (body \<noteq> []))))"
      using w by (simp add: respond(2) f respond(5,6,8))
    show "headers_buffer (snd (do_POST PORT (Handler c))) = []"
      using w by (simp add: respond(2) f respond(4))
  qed
qed

text \<open>A \<open>do_POST\<close> whose body is read, on a socket that accepts the writes, returns.\<close>

lemma do_POST_responds:
  assumes "fst (read_body (Handler c)) = Return body" "socket_writable c"
  shows "fst (do_POST PORT (Handler c)) = Return ()"
proof (cases rule: do_POST_outcome [of c PORT])
  case silent
  with assms show ?thesis by simp
next
  case (respond body' self)
  note f = respond_post_fresh [OF respond(3,4), of PORT body']
  from assms(2) respond(7) show ?thesis by (simp add: respond(2) f)
qed

lemma do_POST_codes: "list_all (\<lambda>code. code = 200) (status_codes (snd (do_POST PORT (Handler c))))"
proof (cases rule: do_POST_outcome [of c PORT])
  case silent
  then show ?thesis by (simp add: status_codes_def)
next
  case (respond body self)
  note f = respond_post_fresh [OF respond(3,4), of PORT body]
  show ?thesis
  proof (cases "wfile_open self")
    case True
    then have "wfile (snd (do_POST PORT (Handler c))) =
        written (request_version self) (ok_head c)
          (str_encode (json_dumps (post_body PORT (path self) (body \<noteq> []))))"
      and "headers_buffer (snd (do_POST PORT (Handler c))) = []"
      by (simp_all add: respond(2) f respond(4,8))
    then show ?thesis by (rule status_codes_written)
  next
    case False
    then have "wfile (snd (do_POST PORT (Handler c))) = []"
      and "headers_buffer (snd (do_POST PORT (Handler c)))
           = unsent (request_version self) (ok_head c)"
      by (simp_all add: respond(2) f respond(3,8))
    then show ?thesis by (rule status_codes_unsent)
  qed
qed

lemma do_GET_port:
  assumes "fst (do_GET PORT (Handler c)) = Return ()"
  shows "response_field (snd (do_GET PORT (Handler c))) ''port'' = Some (JInt PORT)"
proof -
  from assms have w: "socket_writable c" by (simp add: do_GET_eval split: if_splits)
  have "response_json (snd (do_GET PORT (Handler c)))
      = Some (get_body PORT (collapse_slashes (request_target c)))"
    using do_GET_written(2) [OF w] by (rule response_json_written)
  then show ?thesis by (simp add: response_field_def map_of_get_body)
qed

lemma do_POST_port:
  assumes "fst (do_POST PORT (Handler c)) = Return ()"
  shows "response_field (snd (do_POST PORT (Handler c))) ''port'' = Some (JInt PORT)"
proof (rule do_POST_returned [OF assms])
  fix body
  assume "wfile (snd (do_POST PORT (Handler c))) =
      written (request_line_version c) (ok_head c)
        (str_encode (json_dumps
           (post_body PORT (collapse_slashes (request_target c)) (body \<noteq> []))))"
  then have "response_json (snd (do_POST PORT (Handler c)))
      = Some (post_body PORT (collapse_slashes (request_target c)) (body \<noteq> []))"
    by (rule response_json_written)
  then show ?thesis by (simp add: response_field_def map_of_post_body)
qed

lemma handle_port:
  assumes "fst (handle PORT rq) = Return ()"
  shows "response_field (snd (handle PORT rq)) ''port'' = Some (JInt PORT)"
proof (cases rq)
  case (Pair cmd c)
  with assms show ?thesis
    by (cases cmd) (simp_all add: do_GET_port do_POST_port)
qed

lemma serve_forever_outcome:
  assumes "r \<in> set (serve_forever PORT rqs)"
  shows "list_ex (\<lambda>rq. r = handle PORT rq) rqs"
  using assms
  by (induction rqs) (auto simp: Let_def split: if_splits)

lemma do_POST_zero_outcome:
  assumes cl: "content_length_header (Handler c) = Inr 0"
  shows "rfile_reads (snd (do_POST PORT (Handler c))) = []"
    and "rfile (snd (do_POST PORT (Handler c))) = request_body c"
    and "fst (do_POST PORT (Handler c)) =
           (if socket_writable c then Return () else Raise BrokenPipeError)"
    and "socket_writable c \<Longrightarrow>
           response_field (snd (do_POST PORT (Handler c))) ''body_received'' = Some (JBool False)"
    and "socket_writable c \<Longrightarrow>
           response_status (snd (do_POST PORT (Handler c))) =
             (if request_line_version c = ''HTTP/0.9'' then None else Some 200)"
proof -
  have e: "do_POST PORT (Handler c) = respond_post PORT [] (Handler c)"
    by (simp add: do_POST_respond and_then_def read_body_zero [OF cl])
  have fr: "wfile (Handler c) = []" "headers_buffer (Handler c) = []"
    by (simp_all add: Handler_def)
  note f = respond_post_fresh [OF fr, of PORT "[]"]
  have o: "wfile_open (Handler c) = socket_writable c" "rfile_reads (Handler c) = []"
    "rfile (Handler c) = request_body c"
    "request_version (Handler c) = request_line_version c"
    "ok_lines (Handler c) = ok_head c"
    by (simp_all add: Handler_def ok_lines_def ok_head_def)
  have w: "wfile (snd (do_POST PORT (Handler c))) =
      written (request_line_version c) (ok_head c)
        (str_encode (json_dumps (post_body PORT (path (Handler c)) False)))"
    if "socket_writable c"
    using that by (simp add: e f o)
  show "rfile_reads (snd (do_POST PORT (Handler c))) = []"
    and "rfile (snd (do_POST PORT (Handler c))) = request_body c"
    and "fst (do_POST PORT (Handler c)) =
           (if socket_writable c then Return () else Raise BrokenPipeError)"
    by (simp_all add: e f o)
  show "response_field (snd (do_POST PORT (Handler c))) ''body_received'' = Some (JBool False)"
    if "socket_writable c"
    using response_json_written [OF w [OF that]]
    by (simp add: response_field_def map_of_post_body)
  show "response_status (snd (do_POST PORT (Handler c))) =
      (if request_line_version c = ''HTTP/0.9'' then None else Some 200)"
    if "socket_writable c"
    using response_status_written [OF w [OF that]] by (simp add: status_of_ok_head)
qed

lemma do_POST_invalid:
  assumes "content_length_header (Handler c) = Inl e"
  shows "do_POST PORT (Handler c) = (Raise e, Handler c)"
  by (simp add: do_POST_respond and_then_def read_body_invalid [OF assms])

subsection \<open>The example connections\<close>

lemma example_get_returns: "fst (do_GET PORT (Handler example_get)) = Return ()"
  by (simp add: do_GET_eval example_get_def)

lemma content_length_example_post: "content_length_header (Handler example_post) = Inr 5"
proof -
  have "py_int_str ''5'' = Inr 5" by code_simp
  then show ?thesis
    by (simp add: content_length_header_def Handler_def example_post_def lower_names)
qed

lemma example_post_bounds:
  "(0::int) \<le> 5" "5 \<le> max_bytes_size" "nat 5 \<le> memory_limit example_post"
  "nat 5 \<le> length (request_body example_post)"
  "utf8_decode (take (nat 5) (request_body example_post)) = Some [104, 101, 108, 108, 111]"
  "socket_writable example_post" "request_line_version example_post = ''HTTP/1.1''"
  by (simp_all add: example_post_def max_bytes_size_def)

lemma example_post_read_body:
  "fst (read_body (Handler example_post)) = Return [104, 101, 108, 108, 111]"
  using read_body_well_formed [OF content_length_example_post example_post_bounds(1,2,3)
      disjI1 [OF example_post_bounds(4)] example_post_bounds(5)]
  by simp

lemma example_post_returns: "fst (do_POST PORT (Handler example_post)) = Return ()"
  by (rule do_POST_well_formed(1) [OF content_length_example_post example_post_bounds(1,2,3)
      disjI1 [OF example_post_bounds(4)] example_post_bounds(5,6)])

lemma str_int_9090: "str_int 9090 = ''9090''"
proof -
  have d: "digit_char 0 = CHR ''0''" "digit_char 9 = CHR ''9''" by code_simp+
  show ?thesis
    by (simp add: str_int_def str_nat.simps [of 9090] str_nat.simps [of 909]
        str_nat.simps [of 90] str_nat.simps [of 9] d)
qed

lemma module_PORT_example: "module_PORT example_environ = Inr 9090"
proof -
  have "py_int_str ''9090'' = Inr 9090" by code_simp
  then show ?thesis by (simp add: module_PORT_def environ_get_def example_environ_def)
qed

lemma main_example:
  "main example_environ example_bind [(GET, example_get), (POST, example_post)] =
     ([''Starting server on 0.0.0.0:9090''],
      Inr [handle 9090 (GET, example_get), handle 9090 (POST, example_post)])"
  by (simp add: main_def module_PORT_example example_bind_def HOST_def str_int_9090
      example_get_returns example_post_returns)


lemma example_no_length_absent:
  "header_absent (request_headers example_post_no_length) ''Content-Length''"
proof -
  have "py_lower ''Host'' = ''host''" by code_simp
  then show ?thesis
    by (simp add: header_absent_def example_post_no_length_def example_post_def lower_names)
qed

lemma abc_not_literal: "\<not> int_literal ''abc''"
  by (simp add: py_isspace_def is_digit_def)

lemma content_length_example_short: "content_length_header (Handler example_post_short) = Inr 5"
proof -
  have "py_int_str ''5'' = Inr 5" by code_simp
  then show ?thesis
    by (simp add: content_length_header_def Handler_def example_post_short_def example_post_def
        lower_names)
qed

section \<open>The claims\<close>




text \<open>
  The counterexample to C2 as stated: \<open>Content-Length: 5\<close>, the two bytes \<open>hi\<close>, then
  the end of the stream. The handler returns a response with \<open>body_received\<close> true after
  taking two bytes, not five.
\<close>

theorem short_body_counterexample:
  "content_length_header (Handler example_post_short) = Inr 5
   \<and> request_body example_post_short = ''hi''
   \<and> fst (do_POST 8080 (Handler example_post_short)) = Return ()
   \<and> rfile_reads (snd (do_POST 8080 (Handler example_post_short))) = [5]
   \<and> bytes_read example_post_short (snd (do_POST 8080 (Handler example_post_short))) = 2
   \<and> response_field (snd (do_POST 8080 (Handler example_post_short))) ''body_received''
       = Some (JBool True)"
proof -
  have b: "request_body example_post_short = ''hi''"
    by (simp add: example_post_short_def example_post_def)
  have p: "(0::int) \<le> 5" "5 \<le> max_bytes_size" "nat 5 \<le> memory_limit example_post_short"
    "nat 5 \<le> length (request_body example_post_short) \<or> client_closes example_post_short"
    "utf8_decode (take (nat 5) (request_body example_post_short)) = Some [104, 105]"
    "socket_writable example_post_short"
    by (simp_all add: example_post_short_def example_post_def max_bytes_size_def)
  note e = do_POST_well_formed [OF content_length_example_short p, of 8080]
  have rr: "rfile_reads (snd (do_POST 8080 (Handler example_post_short))) = [5]"
    using e(3) by simp
  have rf: "rfile (snd (do_POST 8080 (Handler example_post_short))) = []"
    using e(2) by (simp add: b)
  have "response_json (snd (do_POST 8080 (Handler example_post_short))) =
      Some (post_body 8080 (collapse_slashes (request_target example_post_short))
              ([104, 105] \<noteq> ([] :: nat list)))"
    using e(4) by (rule response_json_written)
  then have j: "response_field (snd (do_POST 8080 (Handler example_post_short)))
      ''body_received'' = Some (JBool True)"
    by (simp add: response_field_def map_of_post_body)
  have br: "bytes_read example_post_short (snd (do_POST 8080 (Handler example_post_short))) = 2"
    by (simp add: bytes_read_def rf b)
  from content_length_example_short b e(1) rr br j show ?thesis by blast
qed

text \<open>
  \<^bold>\<open>C2.\<close> As stated (every POST reads exactly \<open>Content-Length\<close> bytes) the claim fails,
  see the counterexample above. What holds: for a POST whose \<open>Content-Length\<close> is absent
  or is an integer \<open>n\<close> with \<open>0 \<le> n\<close>, \<open>n\<close> a size that \<open>read\<close> accepts (at most
  \<open>2\<^sup>6\<^sup>3 - 34\<close>) and that the process can allocate, on a writable connection, when the
  first \<open>n\<close> bytes of the body arrive, or the client closes its side before that, and the
  bytes read are valid UTF-8: \<open>do_POST\<close> takes exactly \<open>n\<close> bytes from the stream (none
  when the header is absent or zero), or all the bytes sent when the client closes first,
  and responds, with status 200 unless the request line names \<open>HTTP/0.9\<close>, with
  \<open>body_received\<close> true if and only if the decoded body is non-empty, which is the case
  if and only if \<open>n > 0\<close> and the client sent a byte.
\<close>

theorem do_POST_body_received:
  assumes "content_length_header (Handler c) = Inr n"
    and "0 \<le> n"
    and "n \<le> max_bytes_size"
    and "nat n \<le> memory_limit c"
    and "nat n \<le> length (request_body c) \<or> client_closes c"
    and "utf8_decode (take (nat n) (request_body c)) = Some body"
    and "socket_writable c"
  shows "fst (do_POST PORT (Handler c)) = Return ()
       \<and> bytes_read c (snd (do_POST PORT (Handler c))) = min (nat n) (length (request_body c))
       \<and> rfile (snd (do_POST PORT (Handler c))) = drop (nat n) (request_body c)
       \<and> response_status (snd (do_POST PORT (Handler c))) =
           (if request_line_version c = ''HTTP/0.9'' then None else Some 200)
       \<and> response_json (snd (do_POST PORT (Handler c))) =
           Some [(''status'', JStr ''healthy''), (''port'', JInt PORT),
                 (''method'', JStr ''POST''),
                 (''path'', JStr (collapse_slashes (request_target c))),
                 (''body_received'', JBool (body \<noteq> []))]
       \<and> (body \<noteq> []) = (0 < n \<and> request_body c \<noteq> [])
       \<and> (header_absent (request_headers c) ''Content-Length'' \<longrightarrow> n = 0)"
proof -
  note e = do_POST_well_formed [OF assms, of PORT]
  have br: "bytes_read c (snd (do_POST PORT (Handler c))) = min (nat n) (length (request_body c))"
    by (simp add: bytes_read_def e(2))
  have st: "response_status (snd (do_POST PORT (Handler c))) =
      (if request_line_version c = ''HTTP/0.9'' then None else Some 200)"
    using response_status_written [OF e(4)] by (simp add: status_of_ok_head)
  have "response_json (snd (do_POST PORT (Handler c))) =
      Some (post_body PORT (collapse_slashes (request_target c)) (body \<noteq> []))"
    using e(4) by (rule response_json_written)
  then have j: "response_json (snd (do_POST PORT (Handler c))) =
      Some [(''status'', JStr ''healthy''), (''port'', JInt PORT),
            (''method'', JStr ''POST''),
            (''path'', JStr (collapse_slashes (request_target c))),
            (''body_received'', JBool (body \<noteq> []))]"
    by (simp add: post_body_def)
  have "body = [] \<longleftrightarrow> take (nat n) (request_body c) = []"
    using assms(6) utf8_decode_Nil [of "take (nat n) (request_body c)"] by auto
  also have "\<dots> \<longleftrightarrow> n = 0 \<or> request_body c = []"
    using assms(2) by auto
  finally have ne: "(body \<noteq> []) = (0 < n \<and> request_body c \<noteq> [])" using assms(2) by auto
  have ab: "n = 0" if "header_absent (request_headers c) ''Content-Length''"
    using content_length_absent [OF that] assms(1) by simp
  from e(1) br e(2) st j ne ab show ?thesis by blast
qed

theorem do_POST_body_received_witness:
  "content_length_header (Handler example_post) = Inr 5
   \<and> (0::int) \<le> 5
   \<and> 5 \<le> max_bytes_size
   \<and> nat 5 \<le> memory_limit example_post
   \<and> nat 5 \<le> length (request_body example_post)
   \<and> utf8_decode (take (nat 5) (request_body example_post)) = Some [104, 101, 108, 108, 111]
   \<and> socket_writable example_post
   \<and> fst (do_POST 8080 (Handler example_post)) = Return ()
   \<and> bytes_read example_post (snd (do_POST 8080 (Handler example_post))) = 5
   \<and> response_status (snd (do_POST 8080 (Handler example_post))) = Some 200
   \<and> response_json (snd (do_POST 8080 (Handler example_post))) =
       Some [(''status'', JStr ''healthy''), (''port'', JInt 8080),
             (''method'', JStr ''POST''), (''path'', JStr ''/submit''),
             (''body_received'', JBool True)]"
proof -
  note p = example_post_bounds
  have t: "request_target example_post = ''/submit''" "length (request_body example_post) = 5"
    by (simp_all add: example_post_def)
  have cs: "collapse_slashes ''/submit'' = ''/submit''" by (simp add: collapse_slashes_def)
  show ?thesis
    using do_POST_body_received [OF content_length_example_post p(1,2,3) disjI1 [OF p(4)] p(5,6),
        of 8080]
      content_length_example_post p
    by (simp add: t cs)
qed

text \<open>
  The counterexample to C3 as stated: \<open>Content-Length: abc\<close>. The handler raises
  \<open>ValueError\<close>; nothing is written, so there is no status 200 and no JSON body.
\<close>

theorem invalid_content_length_counterexample:
  "headers_get (request_headers example_post_bad_length) ''Content-Length'' (PyInt 0) = PyStr ''abc''
   \<and> \<not> int_literal ''abc''
   \<and> socket_writable example_post_bad_length
   \<and> fst (do_POST 8080 (Handler example_post_bad_length)) = Raise ValueError
   \<and> wfile (snd (do_POST 8080 (Handler example_post_bad_length))) = []
   \<and> response_status (snd (do_POST 8080 (Handler example_post_bad_length))) = None"
proof -
  have h: "headers_get (request_headers example_post_bad_length) ''Content-Length'' (PyInt 0)
      = PyStr ''abc''"
    by (simp add: example_post_bad_length_def example_post_def lower_names)
  have w: "socket_writable example_post_bad_length"
    by (simp add: example_post_bad_length_def example_post_def)
  have "do_POST 8080 (Handler example_post_bad_length)
      = (Raise ValueError, Handler example_post_bad_length)"
    using content_length_invalid [OF h abc_not_literal] by (rule do_POST_invalid)
  then have "fst (do_POST 8080 (Handler example_post_bad_length)) = Raise ValueError"
    and "wfile (snd (do_POST 8080 (Handler example_post_bad_length))) = []"
    by (simp_all add: Handler_def)
  then show ?thesis
    using h w abc_not_literal
    by (simp add: response_status_def response_head_def)
qed

text \<open>
  \<^bold>\<open>C3.\<close> As stated the claim fails for an invalid \<open>Content-Length\<close>: \<open>int\<close> raises
  \<open>ValueError\<close> and the request gets no response. What holds: an absent \<open>Content-Length\<close>
  is read as 0 and, on a writable connection, the request gets the response with
  \<open>body_received\<close> = \<open>false\<close>, with status 200 (the library writes no status line when the
  request line names \<open>HTTP/0.9\<close>); a \<open>Content-Length\<close> whose value \<open>int\<close> rejects makes
  \<open>do_POST\<close> raise \<open>ValueError\<close> before anything is buffered or written.
\<close>

theorem content_length_absent_or_invalid:
  "(header_absent (request_headers c) ''Content-Length'' \<and> socket_writable c \<longrightarrow>
      fst (do_POST PORT (Handler c)) = Return ()
      \<and> rfile_reads (snd (do_POST PORT (Handler c))) = []
      \<and> response_status (snd (do_POST PORT (Handler c))) =
          (if request_line_version c = ''HTTP/0.9'' then None else Some 200)
      \<and> response_field (snd (do_POST PORT (Handler c))) ''body_received'' = Some (JBool False))
   \<and> (headers_get (request_headers c) ''Content-Length'' (PyInt 0) = PyStr v
        \<and> \<not> int_literal v \<longrightarrow>
      fst (do_POST PORT (Handler c)) = Raise ValueError
      \<and> wfile (snd (do_POST PORT (Handler c))) = []
      \<and> headers_buffer (snd (do_POST PORT (Handler c))) = [])"
proof (intro conjI impI; (elim conjE)?)
  assume a: "header_absent (request_headers c) ''Content-Length''" and w: "socket_writable c"
  note z = do_POST_zero_outcome [OF content_length_absent [OF a], of PORT]
  from w z(3) show "fst (do_POST PORT (Handler c)) = Return ()" by simp
  from z(1) show "rfile_reads (snd (do_POST PORT (Handler c))) = []" .
  from z(5) [OF w] show "response_status (snd (do_POST PORT (Handler c))) =
      (if request_line_version c = ''HTTP/0.9'' then None else Some 200)" .
  from z(4) [OF w]
  show "response_field (snd (do_POST PORT (Handler c))) ''body_received'' = Some (JBool False)" .
next
  assume h: "headers_get (request_headers c) ''Content-Length'' (PyInt 0) = PyStr v"
    and n: "\<not> int_literal v"
  have e: "do_POST PORT (Handler c) = (Raise ValueError, Handler c)"
    using content_length_invalid [OF h n] by (rule do_POST_invalid)
  show "fst (do_POST PORT (Handler c)) = Raise ValueError" by (simp add: e)
  show "wfile (snd (do_POST PORT (Handler c))) = []"
    unfolding e by (simp add: Handler_def)
  show "headers_buffer (snd (do_POST PORT (Handler c))) = []"
    unfolding e by (simp add: Handler_def)
qed

theorem content_length_absent_or_invalid_witness:
  "header_absent (request_headers example_post_no_length) ''Content-Length''
   \<and> socket_writable example_post_no_length
   \<and> fst (do_POST 8080 (Handler example_post_no_length)) = Return ()
   \<and> response_status (snd (do_POST 8080 (Handler example_post_no_length))) = Some 200
   \<and> response_field (snd (do_POST 8080 (Handler example_post_no_length))) ''body_received''
       = Some (JBool False)
   \<and> headers_get (request_headers example_post_bad_length) ''Content-Length'' (PyInt 0)
       = PyStr ''abc''
   \<and> \<not> int_literal ''abc''
   \<and> fst (do_POST 8080 (Handler example_post_bad_length)) = Raise ValueError
   \<and> wfile (snd (do_POST 8080 (Handler example_post_bad_length))) = []"
proof -
  have w: "socket_writable example_post_no_length"
    and v: "request_line_version example_post_no_length = ''HTTP/1.1''"
    by (simp_all add: example_post_no_length_def example_post_def)
  have h: "headers_get (request_headers example_post_bad_length) ''Content-Length'' (PyInt 0)
      = PyStr ''abc''"
    by (simp add: example_post_bad_length_def example_post_def lower_names)
  have i: "(if request_line_version example_post_no_length = ''HTTP/0.9'' then None
            else Some (200::nat)) = Some 200"
    by (simp add: v)
  from example_no_length_absent w h abc_not_literal
    content_length_absent_or_invalid [of example_post_no_length 8080 "''abc''", unfolded i]
    content_length_absent_or_invalid [of example_post_bad_length 8080 "''abc''"]
  show ?thesis by blast
qed

text \<open>
  \<^bold>\<open>C4.\<close> In a run of the process, the \<open>port\<close> field of every response, to a GET or to a
  POST and at any place in the sequence of requests, is the port read from the environment
  at start-up.
\<close>

theorem port_invariant:
  assumes "module_PORT environ = Inr p"
    and "main environ bind rqs = (out, Inr outcomes)"
    and "r \<in> set outcomes"
    and "fst r = Return ()"
  shows "response_field (snd r) ''port'' = Some (JInt p)"
proof -
  from assms(1,2) have "outcomes = serve_forever p rqs"
    by (simp add: main_def Let_def split: option.splits)
  with assms(3) have "list_ex (\<lambda>rq. r = handle p rq) rqs"
    by (simp add: serve_forever_outcome)
  then obtain rq where "r = handle p rq" by (auto simp: list_ex_iff)
  with assms(4) show ?thesis by (simp add: handle_port)
qed

theorem port_invariant_witness:
  "module_PORT example_environ = Inr 9090
   \<and> main example_environ example_bind [(GET, example_get), (POST, example_post)] =
       ([''Starting server on 0.0.0.0:9090''],
        Inr [handle 9090 (GET, example_get), handle 9090 (POST, example_post)])
   \<and> handle 9090 (POST, example_post)
       \<in> set [handle 9090 (GET, example_get), handle 9090 (POST, example_post)]
   \<and> fst (handle 9090 (POST, example_post)) = Return ()
   \<and> response_field (snd (handle 9090 (POST, example_post))) ''port'' = Some (JInt 9090)"
proof -
  have m: "handle 9090 (POST, example_post)
       \<in> set [handle 9090 (GET, example_get), handle 9090 (POST, example_post)]" by simp
  have r: "fst (handle 9090 (POST, example_post)) = Return ()"
    by (simp add: example_post_returns)
  show ?thesis
    using port_invariant [OF module_PORT_example main_example m r]
      module_PORT_example main_example m r by simp
qed

text \<open>
  The counterexample to C5 as stated: the request line \<open>GET /\<close>, which names no version.
  The library calls \<open>do_GET\<close> for it and leaves out the status line and the headers, so
  the request is handled and answered by the JSON body alone: no status code 200 and no
  \<open>Content-Type\<close> header.
\<close>

theorem simple_request_counterexample:
  "request_line_version example_get_simple = ''HTTP/0.9''
   \<and> socket_writable example_get_simple
   \<and> fst (handle 8080 (GET, example_get_simple)) = Return ()
   \<and> wfile (snd (handle 8080 (GET, example_get_simple))) =
       [Data (str_encode (json_dumps
          [(''status'', JStr ''healthy''), (''port'', JInt 8080),
           (''method'', JStr ''GET''), (''path'', JStr ''/'')]))]
   \<and> response_status (snd (handle 8080 (GET, example_get_simple))) = None
   \<and> response_header (snd (handle 8080 (GET, example_get_simple))) ''Content-Type'' = None
   \<and> status_codes (snd (handle 8080 (GET, example_get_simple))) = []"
proof -
  have v: "request_line_version example_get_simple = ''HTTP/0.9''"
    and w: "socket_writable example_get_simple"
    and t: "request_target example_get_simple = ''/''"
    by (simp_all add: example_get_simple_def example_get_def)
  have cs: "collapse_slashes ''/'' = ''/''" by (simp add: collapse_slashes_def)
  note g = do_GET_written [OF w, of 8080]
  have r: "fst (handle 8080 (GET, example_get_simple)) = Return ()"
    using g(1) by simp
  have wf: "wfile (snd (handle 8080 (GET, example_get_simple))) =
       [Data (str_encode (json_dumps
          [(''status'', JStr ''healthy''), (''port'', JInt 8080),
           (''method'', JStr ''GET''), (''path'', JStr ''/'')]))]"
    using g(2) by (simp add: v t cs written_def get_body_def)
  have st: "response_status (snd (handle 8080 (GET, example_get_simple))) = None"
    using response_status_written [OF g(2)] by (simp add: v)
  have h: "response_header (snd (handle 8080 (GET, example_get_simple))) ''Content-Type'' = None"
    using response_header_written [OF g(2), of "''Content-Type''"] by (simp add: v)
  have sc: "status_codes (snd (handle 8080 (GET, example_get_simple))) = []"
    using g(2,3) by (simp add: status_codes_def v written_def)
  from v w r wf st h sc show ?thesis by blast
qed

text \<open>
  \<^bold>\<open>C5.\<close> As stated (status 200 and a \<open>Content-Type\<close> header for every handled request)
  the claim fails for a request line that names no version, see the counterexample above.
  What holds: on a connection that accepts the writes and for a request line whose version
  is not \<open>HTTP/0.9\<close>, every GET, and every POST whose body is read (the response phase is
  reached), returns with status 200 and a \<open>Content-Type: application/json\<close> header (looked
  up without regard to case); every request that returns has that status and that header,
  or none at all when the version is \<open>HTTP/0.9\<close>; and whatever the outcome, no status
  code other than 200 is ever buffered or written.
\<close>

theorem handled_status_200:
  "(request_line_version c \<noteq> ''HTTP/0.9'' \<and> socket_writable c \<longrightarrow>
      fst (handle PORT (GET, c)) = Return ()
      \<and> response_status (snd (handle PORT (GET, c))) = Some 200
      \<and> response_header (snd (handle PORT (GET, c))) ''Content-Type''
          = Some ''application/json'')
   \<and> (request_line_version c \<noteq> ''HTTP/0.9'' \<and> socket_writable c
        \<and> fst (read_body (Handler c)) = Return body \<longrightarrow>
      fst (handle PORT (POST, c)) = Return ()
      \<and> response_status (snd (handle PORT (POST, c))) = Some 200
      \<and> response_header (snd (handle PORT (POST, c))) ''Content-Type''
          = Some ''application/json'')
   \<and> (fst (handle PORT (cmd, c)) = Return () \<longrightarrow>
      response_status (snd (handle PORT (cmd, c))) =
        (if request_line_version c = ''HTTP/0.9'' then None else Some 200)
      \<and> response_header (snd (handle PORT (cmd, c))) ''Content-Type'' =
        (if request_line_version c = ''HTTP/0.9'' then None else Some ''application/json''))
   \<and> list_all (\<lambda>code. code = 200) (status_codes (snd (handle PORT (cmd, c))))"
proof -
  have get: "response_status (snd (do_GET PORT (Handler c))) =
        (if request_line_version c = ''HTTP/0.9'' then None else Some 200)
      \<and> response_header (snd (do_GET PORT (Handler c))) ''Content-Type'' =
        (if request_line_version c = ''HTTP/0.9'' then None else Some ''application/json'')"
    if "fst (do_GET PORT (Handler c)) = Return ()"
  proof -
    from that have w: "socket_writable c" by (simp add: do_GET_eval split: if_splits)
    note g = do_GET_written [OF w, of PORT]
    show ?thesis
      using response_status_written [OF g(2)]
        response_header_written [OF g(2), of "''Content-Type''"]
      by (simp add: status_of_ok_head header_of_ok_head)
  qed
  have post: "response_status (snd (do_POST PORT (Handler c))) =
        (if request_line_version c = ''HTTP/0.9'' then None else Some 200)
      \<and> response_header (snd (do_POST PORT (Handler c))) ''Content-Type'' =
        (if request_line_version c = ''HTTP/0.9'' then None else Some ''application/json'')"
    if "fst (do_POST PORT (Handler c)) = Return ()"
  proof (rule do_POST_returned [OF that])
    fix b
    assume wf: "wfile (snd (do_POST PORT (Handler c))) =
      written (request_line_version c) (ok_head c)
        (str_encode (json_dumps
           (post_body PORT (collapse_slashes (request_target c)) (b \<noteq> []))))"
    show ?thesis
      using response_status_written [OF wf]
        response_header_written [OF wf, of "''Content-Type''"]
      by (simp add: status_of_ok_head header_of_ok_head)
  qed
  have c1: "fst (handle PORT (GET, c)) = Return ()
      \<and> response_status (snd (handle PORT (GET, c))) = Some 200
      \<and> response_header (snd (handle PORT (GET, c))) ''Content-Type''
          = Some ''application/json''"
    if "request_line_version c \<noteq> ''HTTP/0.9''" "socket_writable c"
  proof -
    have r: "fst (do_GET PORT (Handler c)) = Return ()"
      using that(2) by (rule do_GET_written(1))
    with get [OF r] that(1) show ?thesis by simp
  qed
  have c2: "fst (handle PORT (POST, c)) = Return ()
      \<and> response_status (snd (handle PORT (POST, c))) = Some 200
      \<and> response_header (snd (handle PORT (POST, c))) ''Content-Type''
          = Some ''application/json''"
    if "request_line_version c \<noteq> ''HTTP/0.9''" "socket_writable c"
      "fst (read_body (Handler c)) = Return body"
  proof -
    have r: "fst (do_POST PORT (Handler c)) = Return ()"
      using that(3,2) by (rule do_POST_responds)
    with post [OF r] that(1) show ?thesis by simp
  qed
  have c3: "response_status (snd (handle PORT (cmd, c))) =
        (if request_line_version c = ''HTTP/0.9'' then None else Some 200)
      \<and> response_header (snd (handle PORT (cmd, c))) ''Content-Type'' =
        (if request_line_version c = ''HTTP/0.9'' then None else Some ''application/json'')"
    if "fst (handle PORT (cmd, c)) = Return ()"
    using that get post by (cases cmd) simp_all
  have c4: "list_all (\<lambda>code. code = 200) (status_codes (snd (handle PORT (cmd, c))))"
    using do_GET_codes [of PORT c] do_POST_codes [of PORT c] by (cases cmd) simp_all
  from c1 c2 c3 c4 show ?thesis by blast
qed

theorem handled_status_200_witness:
  "request_line_version example_post \<noteq> ''HTTP/0.9''
   \<and> socket_writable example_post
   \<and> fst (read_body (Handler example_post)) = Return [104, 101, 108, 108, 111]
   \<and> fst (handle 8080 (GET, example_post)) = Return ()
   \<and> response_status (snd (handle 8080 (GET, example_post))) = Some 200
   \<and> response_header (snd (handle 8080 (GET, example_post))) ''Content-Type''
       = Some ''application/json''
   \<and> fst (handle 8080 (POST, example_post)) = Return ()
   \<and> response_status (snd (handle 8080 (POST, example_post))) = Some 200
   \<and> response_header (snd (handle 8080 (POST, example_post))) ''Content-Type''
       = Some ''application/json''
   \<and> list_all (\<lambda>code. code = 200) (status_codes (snd (handle 8080 (POST, example_post))))"
proof -
  have v: "request_line_version example_post \<noteq> ''HTTP/0.9''"
    by (simp add: example_post_bounds(7))
  from v example_post_bounds(6) example_post_read_body
    handled_status_200 [of example_post 8080 "[104, 101, 108, 108, 111]" POST]
  show ?thesis by blast
qed

text \<open>
  \<^bold>\<open>C6.\<close> Handling a GET is deterministic and idempotent: \<open>N\<close> GET requests for the same
  target \<open>P\<close>, served one after the other on writable connections, get \<open>N\<close> identical
  response bodies, whatever else differs between the connections (the version of the
  request line, the date, the headers, the bytes that follow): the body is the encoding
  of the four fields, with the path that the library makes of \<open>P\<close>, and depends on the
  target and the port alone.
\<close>

theorem do_GET_idempotent:
  assumes "list_all (\<lambda>c. socket_writable c \<and> request_target c = P) cs"
  shows "map (\<lambda>r. response_body (snd r)) (serve_forever PORT (map (Pair GET) cs)) =
     replicate (length cs)
       (str_encode (json_dumps
          [(''status'', JStr ''healthy''), (''port'', JInt PORT),
           (''method'', JStr ''GET''), (''path'', JStr (collapse_slashes P))]))"
  using assms
proof (induction cs)
  case Nil
  show ?case by simp
next
  case (Cons c cs)
  then have w: "socket_writable c" and t: "request_target c = P" by simp_all
  note g = do_GET_written [OF w, of PORT]
  from g(1) have "fst (do_GET PORT (Handler c)) \<noteq> Block" by simp
  moreover have "response_body (snd (do_GET PORT (Handler c))) =
      str_encode (json_dumps (get_body PORT (collapse_slashes P)))"
    using response_body_written [OF g(2)] by (simp add: t)
  ultimately show ?case using Cons by (simp add: get_body_def)
qed

theorem do_GET_idempotent_witness:
  "list_all (\<lambda>c. socket_writable c \<and> request_target c = ''//foo'')
     [example_get_slashes, example_get_slashes\<lparr>request_line_version := ''HTTP/0.9''\<rparr>,
      example_get_slashes\<lparr>server_date := ''Fri, 02 Jan 1970 00:00:00 GMT''\<rparr>]
   \<and> map (\<lambda>r. response_body (snd r))
        (serve_forever 8080 (map (Pair GET)
          [example_get_slashes, example_get_slashes\<lparr>request_line_version := ''HTTP/0.9''\<rparr>,
           example_get_slashes\<lparr>server_date := ''Fri, 02 Jan 1970 00:00:00 GMT''\<rparr>])) =
      replicate 3
       (str_encode (json_dumps
          [(''status'', JStr ''healthy''), (''port'', JInt 8080),
           (''method'', JStr ''GET''), (''path'', JStr (collapse_slashes ''//foo''))]))"
proof -
  let ?cs = "[example_get_slashes, example_get_slashes\<lparr>request_line_version := ''HTTP/0.9''\<rparr>,
    example_get_slashes\<lparr>server_date := ''Fri, 02 Jan 1970 00:00:00 GMT''\<rparr>]"
  have h: "list_all (\<lambda>c. socket_writable c \<and> request_target c = ''//foo'') ?cs"
    by (simp add: example_get_slashes_def example_get_def)
  have l: "length ?cs = 3" by simp
  from h do_GET_idempotent [OF h, of 8080, unfolded l] show ?thesis by (rule conjI)
qed



text \<open>
  \<^bold>\<open>C8.\<close> The listening port is \<open>int\<close> of the environment variable \<open>PORT\<close>, and 8080
  when the variable is absent: with that port the module body prints the start-up line,
  binds the listener on \<open>0.0.0.0\<close> and, when the address is free, serves the requests; a
  decimal port number is read back as itself. When the variable is present and is not an
  integer literal, \<open>int\<close> raises \<open>ValueError\<close> and the module body ends there: nothing is
  printed, no listener is bound and no request is served.
\<close>

theorem module_PORT_startup:
  "(environ ''PORT'' = None \<longrightarrow>
      module_PORT environ = Inr 8080
      \<and> main environ bind rqs =
          ([''Starting server on 0.0.0.0:8080''],
           case bind (''0.0.0.0'', 8080) of
             Some e \<Rightarrow> Inl e
           | None \<Rightarrow> Inr (serve_forever 8080 rqs)))
   \<and> (environ ''PORT'' = Some s \<longrightarrow> module_PORT environ = py_int_str s)
   \<and> (environ ''PORT'' = Some s \<and> py_int_str s = Inr p \<longrightarrow>
      main environ bind rqs =
        ([''Starting server on 0.0.0.0:'' @ str_int p],
         case bind (''0.0.0.0'', p) of
           Some e \<Rightarrow> Inl e
         | None \<Rightarrow> Inr (serve_forever p rqs)))
   \<and> (environ ''PORT'' = Some (str_int q) \<and> 0 \<le> q \<and> q \<le> 65535 \<longrightarrow>
      module_PORT environ = Inr q
      \<and> main environ bind rqs =
          ([''Starting server on 0.0.0.0:'' @ str_int q],
           case bind (''0.0.0.0'', q) of
             Some e \<Rightarrow> Inl e
           | None \<Rightarrow> Inr (serve_forever q rqs)))
   \<and> (environ ''PORT'' = Some s \<and> \<not> int_literal s \<longrightarrow>
        module_PORT environ = Inl ValueError \<and> main environ bind rqs = ([], Inl ValueError))"
proof -
  have run: "main environ bind rqs =
        ([''Starting server on 0.0.0.0:'' @ str_int n],
         case bind (''0.0.0.0'', n) of
           Some e \<Rightarrow> Inl e
         | None \<Rightarrow> Inr (serve_forever n rqs))"
    if "module_PORT environ = Inr n" for n
    using that by (simp add: main_def HOST_def split: option.splits)
  have d: "digit_char 0 = CHR ''0''" "digit_char 8 = CHR ''8''" by code_simp+
  have n: "str_int 8080 = ''8080''"
    by (simp add: str_int_def str_nat.simps [of 8080] str_nat.simps [of 808]
        str_nat.simps [of 80] str_nat.simps [of 8] d)
  have absent: "module_PORT environ = Inr 8080" if "environ ''PORT'' = None"
    using that by (simp add: module_PORT_def environ_get_def)
  have present: "module_PORT environ = py_int_str v" if "environ ''PORT'' = Some v" for v
    using that by (simp add: module_PORT_def environ_get_def)
  have c1: "module_PORT environ = Inr 8080
      \<and> main environ bind rqs =
          ([''Starting server on 0.0.0.0:8080''],
           case bind (''0.0.0.0'', 8080) of
             Some e \<Rightarrow> Inl e
           | None \<Rightarrow> Inr (serve_forever 8080 rqs))"
    if "environ ''PORT'' = None"
    using absent [OF that] run [OF absent [OF that]] by (simp add: n)
  have c3: "main environ bind rqs =
        ([''Starting server on 0.0.0.0:'' @ str_int p],
         case bind (''0.0.0.0'', p) of
           Some e \<Rightarrow> Inl e
         | None \<Rightarrow> Inr (serve_forever p rqs))"
    if "environ ''PORT'' = Some s" "py_int_str s = Inr p"
    using present [OF that(1)] that(2) by (intro run) simp
  have c4: "module_PORT environ = Inr q
      \<and> main environ bind rqs =
          ([''Starting server on 0.0.0.0:'' @ str_int q],
           case bind (''0.0.0.0'', q) of
             Some e \<Rightarrow> Inl e
           | None \<Rightarrow> Inr (serve_forever q rqs))"
    if "environ ''PORT'' = Some (str_int q)" "0 \<le> q" "q \<le> 65535"
  proof -
    have "module_PORT environ = Inr q"
      using present [OF that(1)] that(2,3) by (simp add: py_int_str_port)
    with run [OF this] show ?thesis by simp
  qed
  have fatal: "module_PORT environ = Inl ValueError \<and> main environ bind rqs = ([], Inl ValueError)"
    if "environ ''PORT'' = Some s" "\<not> int_literal s"
  proof -
    from that(2) have "py_int_str s = Inl ValueError" by (rule py_int_str_not_literal)
    with present [OF that(1)] show ?thesis by (simp add: main_def)
  qed
  from c1 present [of s] c3 c4 fatal show ?thesis by blast
qed

theorem module_PORT_startup_witness:
  "(Map.empty :: string \<rightharpoonup> string) ''PORT'' = None \<and> module_PORT Map.empty = Inr 8080
   \<and> main Map.empty example_bind [(GET, example_get)] =
       ([''Starting server on 0.0.0.0:8080''], Inr (serve_forever 8080 [(GET, example_get)]))
   \<and> example_environ ''PORT'' = Some ''9090'' \<and> py_int_str ''9090'' = Inr 9090
   \<and> (0::int) \<le> 9090 \<and> (9090::int) \<le> 65535
   \<and> module_PORT example_environ = Inr 9090
   \<and> main example_environ example_bind [(GET, example_get)] =
       ([''Starting server on 0.0.0.0:9090''], Inr (serve_forever 9090 [(GET, example_get)]))
   \<and> [''PORT'' \<mapsto> ''abc''] ''PORT'' = Some ''abc'' \<and> \<not> int_literal ''abc''
   \<and> module_PORT [''PORT'' \<mapsto> ''abc''] = Inl ValueError
   \<and> main [''PORT'' \<mapsto> ''abc''] example_bind [(GET, example_get)] = ([], Inl ValueError)"
proof -
  let ?rqs = "[(GET, example_get)]"
  have a: "(Map.empty :: string \<rightharpoonup> string) ''PORT'' = None" by simp
  have b: "example_environ ''PORT'' = Some ''9090''" by (simp add: example_environ_def)
  have b': "example_environ ''PORT'' = Some (str_int 9090)" by (simp add: b str_int_9090)
  have i: "py_int_str ''9090'' = Inr 9090" by code_simp
  have r: "(0::int) \<le> 9090" "(9090::int) \<le> 65535" by simp_all
  have c: "[''PORT'' \<mapsto> ''abc''] ''PORT'' = Some ''abc''" by simp
  have f: "example_bind (''0.0.0.0'', 8080) = None" "example_bind (''0.0.0.0'', 9090) = None"
    by (simp_all add: example_bind_def)
  have t1: "module_PORT Map.empty = Inr 8080
      \<and> main Map.empty example_bind ?rqs =
          ([''Starting server on 0.0.0.0:8080''], Inr (serve_forever 8080 ?rqs))"
    using module_PORT_startup [of Map.empty example_bind ?rqs] a by (simp add: f)
  have t2: "module_PORT example_environ = Inr 9090"
    using module_PORT_startup [of example_environ example_bind ?rqs "''9090''" 9090 9090] b
    by (simp add: i)
  have t3: "main example_environ example_bind ?rqs =
       ([''Starting server on 0.0.0.0:9090''], Inr (serve_forever 9090 ?rqs))"
    using module_PORT_startup [of example_environ example_bind ?rqs "''9090''" 9090 9090] b b'
    by (simp add: i f str_int_9090)
  have t4: "module_PORT [''PORT'' \<mapsto> ''abc''] = Inl ValueError
      \<and> main [''PORT'' \<mapsto> ''abc''] example_bind ?rqs = ([], Inl ValueError)"
    using module_PORT_startup [of "[''PORT'' \<mapsto> ''abc'']" example_bind ?rqs "''abc''"]
      c abc_not_literal
    by blast
  from a t1 b i r t2 t3 c abc_not_literal t4 show ?thesis by blast
qed



text \<open>
  \<^bold>\<open>C10.\<close> For a POST whose \<open>Content-Length\<close> header is absent or parses to 0, \<open>do_POST\<close>
  makes no \<open>read\<close> call and leaves the request stream as it is, whatever bytes it holds;
  on a writable connection the response then has \<open>body_received\<close> = \<open>false\<close>.
\<close>

theorem do_POST_no_read:
  assumes "header_absent (request_headers c) ''Content-Length''
           \<or> content_length_header (Handler c) = Inr 0"
  shows "rfile_reads (snd (do_POST PORT (Handler c))) = []
       \<and> rfile (snd (do_POST PORT (Handler c))) = request_body c
       \<and> fst (do_POST PORT (Handler c)) =
           (if socket_writable c then Return () else Raise BrokenPipeError)
       \<and> (socket_writable c \<longrightarrow>
            response_field (snd (do_POST PORT (Handler c))) ''body_received''
              = Some (JBool False))"
proof -
  from assms have cl: "content_length_header (Handler c) = Inr 0"
    using content_length_absent by blast
  show ?thesis using do_POST_zero_outcome(1,2,3,4) [OF cl, of PORT] by blast
qed

theorem do_POST_no_read_witness:
  "header_absent (request_headers example_post_no_length) ''Content-Length''
   \<and> request_body example_post_no_length = ''hello''
   \<and> rfile_reads (snd (do_POST 8080 (Handler example_post_no_length))) = []
   \<and> rfile (snd (do_POST 8080 (Handler example_post_no_length))) = ''hello''
   \<and> fst (do_POST 8080 (Handler example_post_no_length)) = Return ()
   \<and> response_field (snd (do_POST 8080 (Handler example_post_no_length))) ''body_received''
       = Some (JBool False)"
proof -
  have b: "request_body example_post_no_length = ''hello''"
    and w: "socket_writable example_post_no_length"
    by (simp_all add: example_post_no_length_def example_post_def)
  show ?thesis
    using do_POST_no_read [OF disjI1 [OF example_no_length_absent], of 8080]
      example_no_length_absent b w
    by simp
qed

end
